theory Spec2Isabelle
  imports Complex_Main "HOL-Library.AList"
begin

section \<open>Shared vocabulary: exceptions, log levels, observable effects\<close>

text \<open>
  The Python exceptions that the modelled functions can raise. A function that can raise
  returns a value of type \<open>exn + 'a\<close>, with \<open>Inl\<close> for the exception.
  \<open>SystemExit\<close> carries the status given to \<open>sys.exit\<close>; \<open>Blocked\<close> stands for a
  \<open>Queue.get()\<close> without timeout that never returns.
\<close>

datatype exn =
    SecurityFault
  | LivenessError
  | AssertionError
  | AttributeError
  | KeyError
  | TypeError
  | ValueError
  | ZeroDivisionError
  | Full
  | SystemExit int
  | Blocked

datatype level = DEBUG | INFO | WARNING | ERROR | CRITICAL

text \<open>
  Instrument identity. Modelled from the spec: \<open>SimpleContract\<close> (src/model/data.py is
  not part of the sources) is "a normalized, hashable, equality-comparable key
  (symbol + exchange + currency metadata)".
\<close>

datatype SimpleContract =
  SimpleContract (symbol: string) (exchange: string) (currency: string)

text \<open>
  The fields of the broker library's \<open>Order\<close> object that the sources read or write.
  \<open>audited\<close> is the presence of the attribute \<open>_audited\<close> (\<open>hasattr(order, "_audited")\<close>),
  which a fresh \<open>Order()\<close> does not have.
\<close>

record Order =
  orderType :: string
  transmit :: bool
  outsideRth :: bool
  action :: string
  totalQuantity :: int
  lmtPrice :: real
  audited :: bool

text \<open>
  What a call does besides returning: log lines, the console prompt, and the requests sent
  to the broker. A log line is recorded with its logger, its level and a fixed label
  (for the security logger: the rule's name); the formatted numbers of the message text are
  not rendered.
\<close>

datatype event =
    SecLog level string
  | Prompt string
  | AppLog level string
  | ReqIds
  | QueueGet int
  | CancelOrder int
  | Sleep
  | PlaceOrder int SimpleContract Order
  | ReqPositions
  | Disconnect
  | SysExit int

section \<open>security.py: tiered risk rules\<close>

text \<open>
  \<open>ThreeTierGeneric\<close>, a frozen dataclass. Floats are modelled as reals, Python ints as
  \<open>int\<close>; the rule is polymorphic in the number type as the source is generic in \<open>T\<close>.
\<close>

record 'a ThreeTierGeneric =
  name :: string
  block_level :: 'a
  confirm_level :: 'a
  notify_level :: 'a
  confirm_msg :: string
  cmp_op :: "'a \<Rightarrow> 'a \<Rightarrow> bool"

text \<open>
  \<open>_confirm_danger\<close>: one call of \<open>input\<close>; \<open>ans\<close> is the line that the operator types.
\<close>

definition confirm_danger :: "'a ThreeTierGeneric \<Rightarrow> 'a \<Rightarrow> string \<Rightarrow> (exn + unit) \<times> event list" where
  "confirm_danger r val ans =
     (if ans \<noteq> ''YES'' then (Inl SecurityFault, [Prompt (name r)])
      else (Inr (), [Prompt (name r)]))"

definition validate :: "'a ThreeTierGeneric \<Rightarrow> 'a \<Rightarrow> string \<Rightarrow> (exn + 'a) \<times> event list" where
  "validate r val ans =
     (if cmp_op r val (block_level r) then (Inl SecurityFault, [SecLog ERROR (name r)])
      else if cmp_op r val (confirm_level r) then
        (case confirm_danger r val ans of
           (Inl e, evs) \<Rightarrow> (Inl e, evs)
         | (Inr _, evs) \<Rightarrow> (Inr val, evs @ [SecLog WARNING (name r)]))
      else if cmp_op r val (notify_level r) then (Inr val, [SecLog INFO (name r)])
      else (Inr val, [SecLog DEBUG (name r)]))"

text \<open>
  Construction. The dataclass-generated \<open>__init__\<close> takes the five positional fields and
  \<open>cmp_op\<close>, which has a default in both subclasses: the argument is either omitted, or
  Python's \<open>None\<close>, or a callable. \<open>__post_init__\<close> of the base class asserts that
  \<open>cmp_op\<close> is not \<open>None\<close>; the subclass then asserts the order of the block and confirm
  levels.
\<close>

datatype 'a cmp_arg = Omitted | PyNone | Callable "'a \<Rightarrow> 'a \<Rightarrow> bool"

definition ThreeTierNMax ::
  "string \<Rightarrow> 'a::linorder \<Rightarrow> 'a \<Rightarrow> 'a \<Rightarrow> string \<Rightarrow> 'a cmp_arg \<Rightarrow> exn + 'a ThreeTierGeneric" where
  "ThreeTierNMax nm blk cnf ntf msg arg =
     (case arg of
        PyNone \<Rightarrow> Inl AssertionError
      | _ \<Rightarrow>
        if \<not> blk > cnf then Inl AssertionError
        else Inr \<lparr>name = nm, block_level = blk, confirm_level = cnf, notify_level = ntf,
                  confirm_msg = msg,
                  cmp_op = (case arg of Callable f \<Rightarrow> f | _ \<Rightarrow> (\<lambda>a b. a > b))\<rparr>)"

definition ThreeTierNMin ::
  "string \<Rightarrow> 'a::linorder \<Rightarrow> 'a \<Rightarrow> 'a \<Rightarrow> string \<Rightarrow> 'a cmp_arg \<Rightarrow> exn + 'a ThreeTierGeneric" where
  "ThreeTierNMin nm blk cnf ntf msg arg =
     (case arg of
        PyNone \<Rightarrow> Inl AssertionError
      | _ \<Rightarrow>
        if \<not> blk < cnf then Inl AssertionError
        else Inr \<lparr>name = nm, block_level = blk, confirm_level = cnf, notify_level = ntf,
                  confirm_msg = msg,
                  cmp_op = (case arg of Callable f \<Rightarrow> f | _ \<Rightarrow> (\<lambda>a b. a < b))\<rparr>)"

subsection \<open>The Policy catalogue\<close>

text \<open>
  Each class member of \<open>Policy\<close> is the object that its constructor call yields; the
  calls pass five positional arguments, so the comparison is the family's default. The
  levels of \<open>ORDER_QTY\<close> and \<open>MISALLOC_DOLLARS\<close> are Python ints, those of the other rules
  floats; Python compares the two numerically, and both are modelled as reals here.
\<close>

definition max_rule :: "string \<Rightarrow> 'a::linorder \<Rightarrow> 'a \<Rightarrow> 'a \<Rightarrow> string \<Rightarrow> 'a ThreeTierGeneric" where
  "max_rule nm blk cnf ntf msg =
     \<lparr>name = nm, block_level = blk, confirm_level = cnf, notify_level = ntf,
      confirm_msg = msg, cmp_op = (\<lambda>a b. a > b)\<rparr>"

definition min_rule :: "string \<Rightarrow> 'a::linorder \<Rightarrow> 'a \<Rightarrow> 'a \<Rightarrow> string \<Rightarrow> 'a ThreeTierGeneric" where
  "min_rule nm blk cnf ntf msg =
     \<lparr>name = nm, block_level = blk, confirm_level = cnf, notify_level = ntf,
      confirm_msg = msg, cmp_op = (\<lambda>a b. a < b)\<rparr>"

definition MARGIN_USAGE :: "real ThreeTierGeneric" where
  "MARGIN_USAGE = max_rule ''MARGIN USAGE'' 0.80 0.60 0.40 ''High margin usage.''"

definition MARGIN_REQ :: "real ThreeTierGeneric" where
  "MARGIN_REQ = min_rule ''MARGIN REQ'' 0.15 0.20 0.25 ''Low margin requirement.''"

definition LOAN_AMT :: "real ThreeTierGeneric" where
  "LOAN_AMT = max_rule ''LOAN AMOUNT'' 100000 75000 50000 ''Large loan size.''"

definition MISALLOCATION :: "real ThreeTierGeneric" where
  "MISALLOCATION = max_rule ''MISALLOCATION'' (3 / 1000) (1 / 1000) (3 / 10000) ''Misallocated portfolio.''"

definition ORDER_QTY :: "real ThreeTierGeneric" where
  "ORDER_QTY = max_rule ''ORDER SIZE'' 250 100 50 ''Large order size.''"

definition ORDER_TOTAL :: "real ThreeTierGeneric" where
  "ORDER_TOTAL = max_rule ''ORDER TOTAL'' 50000 5000 1000 ''Large order amount.''"

definition MISALLOC_DOLLARS :: "real ThreeTierGeneric" where
  "MISALLOC_DOLLARS = min_rule ''MISALLOC $ MIN'' 200 400 600 ''Small dollar rebalance threshold.''"

definition REBALANCE_TRIGGER :: "real ThreeTierGeneric" where
  "REBALANCE_TRIGGER = min_rule ''REBALANCE TRIGGER % MIN'' 0.5 0.75 1.0 ''Small rebalance trigger.''"

definition ATH_MARGIN_USE :: "real ThreeTierGeneric" where
  "ATH_MARGIN_USE = max_rule ''ATH MARGIN USER'' 0.3 0.2 0.0 ''High ATH margin usage.''"

definition DRAWDOWN_COEFFICIENT :: "real ThreeTierGeneric" where
  "DRAWDOWN_COEFFICIENT = max_rule ''DRAWDOWN COEFFICIENT'' 2.0 1.5 0.5 ''High drawdown coefficient.''"

definition ORDER_COOLOFF :: real where "ORDER_COOLOFF = 55"
definition MAX_PRICING_AGE :: real where "MAX_PRICING_AGE = 20"
definition MAX_ACCT_SUM_AGE :: real where "MAX_ACCT_SUM_AGE = 120"

text \<open>
  Attribute lookup on the class \<open>Policy\<close>: the names that the class body binds, and
  nothing else. A name that is not bound raises \<open>AttributeError\<close> at the lookup.
\<close>

datatype policy_attr =
    Rule "real ThreeTierGeneric"
  | Seconds real

definition Policy :: "string \<Rightarrow> policy_attr option" where
  "Policy = map_of
     [(''MARGIN_USAGE'', Rule MARGIN_USAGE),
      (''MARGIN_REQ'', Rule MARGIN_REQ),
      (''LOAN_AMT'', Rule LOAN_AMT),
      (''MISALLOCATION'', Rule MISALLOCATION),
      (''ORDER_QTY'', Rule ORDER_QTY),
      (''ORDER_TOTAL'', Rule ORDER_TOTAL),
      (''MISALLOC_DOLLARS'', Rule MISALLOC_DOLLARS),
      (''REBALANCE_TRIGGER'', Rule REBALANCE_TRIGGER),
      (''ATH_MARGIN_USE'', Rule ATH_MARGIN_USE),
      (''DRAWDOWN_COEFFICIENT'', Rule DRAWDOWN_COEFFICIENT),
      (''ORDER_COOLOFF'', Seconds ORDER_COOLOFF),
      (''MAX_PRICING_AGE'', Seconds MAX_PRICING_AGE),
      (''MAX_ACCT_SUM_AGE'', Seconds MAX_ACCT_SUM_AGE)]"

text \<open>
  \<open>PERMIT_ERROR\<close>, the broker error codes that are logged instead of being fatal, with the
  name of the log level of each.
\<close>

definition PERMIT_ERROR :: "int \<Rightarrow> string option" where
  "PERMIT_ERROR = map_of
     [(202, ''WARNING''),
      (504, ''DEBUG''),
      (2103, ''WARNING''),
      (2104, ''DEBUG''),
      (2106, ''DEBUG''),
      (2108, ''DEBUG''),
      (2158, ''DEBUG'')]"

text \<open>
  \<open>audit_order\<close>. \<open>armed_flag\<close> is the truth value of
  \<open>config()["app"].getboolean("armed")\<close> (an absent option yields \<open>None\<close>, which \<open>or\<close>
  treats as false). The three conjuncts are accumulated with \<open>&=\<close>, so all of them are evaluated; a failed
  audit is a failed \<open>assert\<close>.
\<close>

definition audit_order :: "bool \<Rightarrow> Order \<Rightarrow> exn + Order" where
  "audit_order armed_flag ord =
     (let succ = (orderType ord = ''MIDPRICE'');
          succ = (succ \<and> (armed_flag \<or> \<not> transmit ord));
          succ = (succ \<and> \<not> outsideRth ord)
      in if \<not> succ then Inl AssertionError else Inr (ord\<lparr>audited := True\<rparr>))"

section \<open>The state that the application reads\<close>

text \<open>
  Wall-clock readings (\<open>time.time()\<close>) are an argument \<open>now\<close> of every function that
  reads the clock: the readings made during one call are taken to be the same instant.
\<close>

text \<open>
  Modelled from the spec: \<open>AcctState\<close> (src/model/data.py is not part of the sources), "a
  snapshot: gross position value, equity-with-loan value, broker-reported
  maintenance-margin ratio, and the configured minimum-margin-requirement floor", with "an
  age-since-capture used for staleness". \<open>captured\<close> is the time of capture.
\<close>

record AcctState =
  gpv :: real
  ewlv :: real
  r0 :: real
  min_margin_req :: real
  captured :: real

definition summary_age :: "AcctState \<Rightarrow> real \<Rightarrow> real" where
  "summary_age a now = now - captured a"

text \<open>\<open>OHLCBar(t, o, h, l, c)\<close>: \<open>t\<close> is the bar's epoch second, an integer.\<close>

record OHLCBar =
  bar_t :: int
  bar_o :: real
  bar_h :: real
  bar_l :: real
  bar_c :: real

text \<open>
  Modelled from the spec: \<open>Composition\<close> (src/model/data.py is not part of the sources), a
  "mapping from instrument identity to a non-negative target weight". \<open>contracts\<close> are its
  keys in iteration order; indexing with a key that is absent raises \<open>KeyError\<close>.
\<close>

record Composition =
  contracts :: "SimpleContract list"
  weights :: "SimpleContract \<Rightarrow> real option"

definition Composition_getitem :: "Composition \<Rightarrow> SimpleContract \<Rightarrow> exn + real" where
  "Composition_getitem tc sc = (case weights tc sc of None \<Rightarrow> Inl KeyError | Some w \<Rightarrow> Inr w)"

record AutorebalanceConfig =
  dd_reference_ath :: real
  mu_at_ath :: real
  dd_coef :: real
  misalloc_min_dollars :: int
  misalloc_min_frac :: real
  misalloc_frac_force_elbow :: real
  misalloc_frac_force_coef :: real
  conf_min_margin_req :: real
  order_timeout :: int
  max_slippage :: real
  rebalance_freq :: real
  liveness_timeout :: real
  armed :: bool

section \<open>The Order Manager\<close>

text \<open>
  Modelled from the spec: \<open>OMState\<close> and \<open>OrderManager\<close> (src/model/data.py is not part of
  the sources). An entry is "keyed by instrument identity; value = (broker order id, Order,
  state)" with the states \<open>PENDING\<close>, \<open>TRANSMITTED\<close> and \<open>COOLOFF\<close>; \<open>finalize\<close> stamps "a
  timestamp used to expire the entry after a fixed quiet interval". There is "at most one
  entry per instrument"; the entries are kept as an association list so that the lookup by
  order id can run through them.
\<close>

datatype OMState = PENDING | TRANSMITTED | COOLOFF

record OMEntry =
  om_oid :: int
  om_order :: Order
  om_state :: OMState
  om_stamp :: real

type_synonym OrderManager = "(SimpleContract \<times> OMEntry) list"

text \<open>
  Modelled from the spec: "Cooloff entries expire (instrument becomes untracked again)
  strictly after the configured quiet period elapses, checked lazily on next access rather
  than by a timer." Every operation that is keyed by an instrument starts with this check
  for that instrument.
\<close>

definition om_expire :: "real \<Rightarrow> OrderManager \<Rightarrow> SimpleContract \<Rightarrow> OrderManager" where
  "om_expire now om sc =
     (case map_of om sc of
        None \<Rightarrow> om
      | Some e \<Rightarrow>
          if om_state e = COOLOFF \<and> now - om_stamp e > ORDER_COOLOFF
          then AList.delete sc om else om)"

text \<open>
  Modelled from the spec: \<open>enter(instrument, orderId, order) -> bool\<close> "creates a \<open>PENDING\<close>
  entry iff no entry exists for the instrument; returns false (no mutation) if an entry
  already exists in any state".
\<close>

definition enter_order ::
  "real \<Rightarrow> OrderManager \<Rightarrow> SimpleContract \<Rightarrow> int \<Rightarrow> Order \<Rightarrow> bool \<times> OrderManager" where
  "enter_order now om sc oid ord =
     (let om1 = om_expire now om sc in
      case map_of om1 sc of
        None \<Rightarrow>
          (True, AList.update sc
                   \<lparr>om_oid = oid, om_order = ord, om_state = PENDING, om_stamp = 0\<rparr> om1)
      | Some e \<Rightarrow> (False, om1))"

text \<open>
  Modelled from the spec: \<open>transmit(instrument) -> bool\<close> "moves \<open>PENDING\<close> to
  \<open>TRANSMITTED\<close>; idempotent-safe to call redundantly once already \<open>TRANSMITTED\<close> (returns
  true without state change)".
\<close>

definition transmit_order :: "real \<Rightarrow> OrderManager \<Rightarrow> SimpleContract \<Rightarrow> bool \<times> OrderManager" where
  "transmit_order now om sc =
     (let om1 = om_expire now om sc in
      case map_of om1 sc of
        None \<Rightarrow> (False, om1)
      | Some e \<Rightarrow>
          (case om_state e of
             PENDING \<Rightarrow> (True, AList.update sc (e\<lparr>om_state := TRANSMITTED\<rparr>) om1)
           | TRANSMITTED \<Rightarrow> (True, om1)
           | COOLOFF \<Rightarrow> (False, om1)))"

text \<open>
  Modelled from the spec: \<open>finalize(instrument) -> bool\<close> "moves \<open>TRANSMITTED\<close> to
  \<open>COOLOFF\<close>, stamping a timestamp"; on an entry already in \<open>COOLOFF\<close> it "must not change
  state".
\<close>

definition finalize_order :: "real \<Rightarrow> OrderManager \<Rightarrow> SimpleContract \<Rightarrow> bool \<times> OrderManager" where
  "finalize_order now om sc =
     (let om1 = om_expire now om sc in
      case map_of om1 sc of
        None \<Rightarrow> (False, om1)
      | Some e \<Rightarrow>
          (case om_state e of
             TRANSMITTED \<Rightarrow>
               (True, AList.update sc (e\<lparr>om_state := COOLOFF, om_stamp := now\<rparr>) om1)
           | _ \<Rightarrow> (False, om1)))"

text \<open>
  Modelled from the spec: \<open>clear_untransmitted(instrument) -> Optional[orderId]\<close> "removes
  and returns the order id only if the entry is \<open>PENDING\<close>; no-op (returns nothing)
  otherwise".
\<close>

definition clear_untransmitted ::
  "real \<Rightarrow> OrderManager \<Rightarrow> SimpleContract \<Rightarrow> int option \<times> OrderManager" where
  "clear_untransmitted now om sc =
     (let om1 = om_expire now om sc in
      case map_of om1 sc of
        None \<Rightarrow> (None, om1)
      | Some e \<Rightarrow>
          if om_state e = PENDING then (Some (om_oid e), AList.delete sc om1)
          else (None, om1))"

text \<open>
  Modelled from the spec: the read accessors \<open>lookup_by_order_id\<close> (\<open>get_nc\<close> in the
  callers), \<open>lookup_order\<close> (\<open>get_order\<close>) and \<open>state_of\<close> (\<open>get_state\<close>, and indexing the
  manager with an instrument).
\<close>

definition get_nc :: "OrderManager \<Rightarrow> int \<Rightarrow> SimpleContract option" where
  "get_nc om oid = map_option fst (find (\<lambda>(sc, e). om_oid e = oid) om)"

definition get_order :: "real \<Rightarrow> OrderManager \<Rightarrow> SimpleContract \<Rightarrow> Order option \<times> OrderManager" where
  "get_order now om sc =
     (let om1 = om_expire now om sc in (map_option om_order (map_of om1 sc), om1))"

definition get_state :: "real \<Rightarrow> OrderManager \<Rightarrow> SimpleContract \<Rightarrow> OMState option \<times> OrderManager" where
  "get_state now om sc =
     (let om1 = om_expire now om sc in (map_option om_state (map_of om1 sc), om1))"

section \<open>autorebalance.py: the application\<close>

text \<open>
  The attributes of \<open>AutorebalanceApp\<close> that the modelled methods use. The order-id queue
  is \<open>Queue(maxsize=1)\<close>: a FIFO list with a bound.
\<close>

record app =
  acct_state :: "AcctState option"
  portfolio_prices :: "SimpleContract \<Rightarrow> OHLCBar option"
  target_composition :: Composition
  conf :: AutorebalanceConfig
  order_id_queue :: "int list"
  order_manager :: OrderManager

definition order_id_queue_maxsize :: nat where
  "order_id_queue_maxsize = 1"

text \<open>\<open>Queue.put_nowait\<close>: raises \<open>Full\<close> instead of waiting for a free slot.\<close>

definition put_nowait :: "int list \<Rightarrow> int \<Rightarrow> exn + int list" where
  "put_nowait q x =
     (if 0 < order_id_queue_maxsize \<and> length q \<ge> order_id_queue_maxsize then Inl Full
      else Inr (q @ [x]))"

text \<open>\<open>Queue.get\<close> without timeout: waits while the queue is empty.\<close>

definition queue_get :: "int list \<Rightarrow> exn + (int \<times> int list)" where
  "queue_get q = (case q of [] \<Rightarrow> Inl Blocked | x # xs \<Rightarrow> Inr (x, xs))"

subsection \<open>Retraction and shutdown\<close>

definition safe_cancel_order :: "int \<Rightarrow> event list" where
  "safe_cancel_order oid = [CancelOrder oid, Sleep]"

definition clear_any_untransmitted_order :: "app \<Rightarrow> real \<Rightarrow> SimpleContract \<Rightarrow> app \<times> event list" where
  "clear_any_untransmitted_order s now sc =
     (case clear_untransmitted now (order_manager s) sc of
        (None, om1) \<Rightarrow> (s\<lparr>order_manager := om1\<rparr>, [])
      | (Some cleared_oid, om1) \<Rightarrow> (s\<lparr>order_manager := om1\<rparr>, safe_cancel_order cleared_oid))"

fun clear_all :: "app \<Rightarrow> real \<Rightarrow> SimpleContract list \<Rightarrow> app \<times> event list" where
  "clear_all s now [] = (s, [])"
| "clear_all s now (sc # scs) =
     (case clear_any_untransmitted_order s now sc of
        (s1, evs1) \<Rightarrow> (case clear_all s1 now scs of (s2, evs2) \<Rightarrow> (s2, evs1 @ evs2)))"

text \<open>
  \<open>shut_down\<close>: the loop over the target contracts, then \<open>super().shut_down()\<close>, then
  \<open>sys.exit(-1)\<close>. Modelled from the spec: the base class's \<open>shut_down\<close> (src/app/base.py
  is not part of the sources) is the step "disconnect from the collaborator" of the
  shutdown sequence.
\<close>

definition shut_down :: "app \<Rightarrow> real \<Rightarrow> (exn + unit) \<times> app \<times> event list" where
  "shut_down s now =
     (case clear_all s now (contracts (target_composition s)) of
        (s1, evs) \<Rightarrow> (Inl (SystemExit (- 1)), s1, evs @ [Disconnect, SysExit (- 1)]))"

definition kill_app :: "app \<Rightarrow> real \<Rightarrow> string \<Rightarrow> (exn + unit) \<times> app \<times> event list" where
  "kill_app s now msg =
     (case shut_down s now of
        (res, s1, evs) \<Rightarrow> (res, s1, AppLog CRITICAL (''Killed: '' @ msg) # evs))"

subsection \<open>The order-id callback\<close>

definition next_requested_id :: "app \<Rightarrow> real \<Rightarrow> int \<Rightarrow> (exn + unit) \<times> app \<times> event list" where
  "next_requested_id s now oid =
     (case put_nowait (order_id_queue s) oid of
        Inr q \<Rightarrow> (Inr (), s\<lparr>order_id_queue := q\<rparr>, [])
      | Inl e \<Rightarrow>
          if e = Full then kill_app s now ''Full order queue -- should not be possible.''
          else (Inl e, s, []))"

subsection \<open>The order-status callback\<close>

definition orderStatus :: "app \<Rightarrow> real \<Rightarrow> int \<Rightarrow> string \<Rightarrow> (exn + unit) \<times> app \<times> event list" where
  "orderStatus s now oid status =
     (case get_nc (order_manager s) oid of
        None \<Rightarrow> (Inl AssertionError, s, [])
      | Some sc \<Rightarrow>
        (case get_order now (order_manager s) sc of
           (None, om1) \<Rightarrow> (Inl AssertionError, s\<lparr>order_manager := om1\<rparr>, [])
         | (Some ord, om1) \<Rightarrow>
           (case get_state now om1 sc of
              (st, om2) \<Rightarrow>
                if st = Some COOLOFF then
                  (Inr (), s\<lparr>order_manager := om2\<rparr>,
                   [AppLog DEBUG ''Dropping post-finalization call''])
                else
                  (case (if st = Some TRANSMITTED then (True, om2)
                         else transmit_order now om2 sc) of
                     (ok, om3) \<Rightarrow>
                       if \<not> ok then (Inl AssertionError, s\<lparr>order_manager := om3\<rparr>, [])
                       else if status = ''Filled'' then
                         (case finalize_order now om3 sc of
                            (fin, om4) \<Rightarrow>
                              if \<not> fin then (Inl AssertionError, s\<lparr>order_manager := om4\<rparr>, [])
                              else (Inr (), s\<lparr>order_manager := om4\<rparr>,
                                    [AppLog INFO ''Order filled'', ReqPositions]))
                       else if status = ''Cancelled'' then
                         (case finalize_order now om3 sc of
                            (fin, om4) \<Rightarrow>
                              if \<not> fin then (Inl AssertionError, s\<lparr>order_manager := om4\<rparr>, [])
                              else (Inr (), s\<lparr>order_manager := om4\<rparr>,
                                    [AppLog INFO ''Order canceled'']))
                       else (Inr (), s\<lparr>order_manager := om3\<rparr>,
                             [AppLog DEBUG ''Order status''])))))"

subsection \<open>Liveness\<close>

text \<open>
  \<open>pricing_age\<close> returns \<open>float("inf")\<close> as soon as a target contract has no bar.
\<close>

datatype age = Finite real | Infinite

fun age_less :: "age \<Rightarrow> real \<Rightarrow> bool" where
  "age_less (Finite a) x = (a < x)"
| "age_less Infinite x = False"

fun pricing_age_loop ::
  "(SimpleContract \<Rightarrow> OHLCBar option) \<Rightarrow> real \<Rightarrow> real \<Rightarrow> SimpleContract list \<Rightarrow> age" where
  "pricing_age_loop prices now a [] = Finite a"
| "pricing_age_loop prices now a (contract # rest) =
     (case prices contract of
        None \<Rightarrow> Infinite
      | Some bar \<Rightarrow> pricing_age_loop prices now (max a (now - real_of_int (bar_t bar))) rest)"

definition pricing_age :: "app \<Rightarrow> real \<Rightarrow> age" where
  "pricing_age s now =
     pricing_age_loop (portfolio_prices s) now 0 (contracts (target_composition s))"

definition is_live :: "app \<Rightarrow> real \<Rightarrow> bool" where
  "is_live s now =
     (case acct_state s of
        None \<Rightarrow> False
      | Some a \<Rightarrow> summary_age a now < MAX_ACCT_SUM_AGE \<and> age_less (pricing_age s now) MAX_PRICING_AGE)"

subsection \<open>Target margin use\<close>

text \<open>
  The generator's sum in \<open>effective_drawdown\<close>, added up from the left; a contract without
  a weight or without a bar raises \<open>KeyError\<close>.
\<close>

fun port_price_sum :: "app \<Rightarrow> real \<Rightarrow> SimpleContract list \<Rightarrow> exn + real" where
  "port_price_sum s acc [] = Inr acc"
| "port_price_sum s acc (sc # rest) =
     (case Composition_getitem (target_composition s) sc of
        Inl e \<Rightarrow> Inl e
      | Inr w \<Rightarrow>
        (case portfolio_prices s sc of
           None \<Rightarrow> Inl KeyError
         | Some bar \<Rightarrow> port_price_sum s (acc + w * bar_c bar) rest))"

definition effective_drawdown :: "app \<Rightarrow> real \<Rightarrow> exn + real" where
  "effective_drawdown s now =
     (if \<not> is_live s now then Inl LivenessError
      else
        (case port_price_sum s 0 (contracts (target_composition s)) of
           Inl e \<Rightarrow> Inl e
         | Inr port_price \<Rightarrow>
             if dd_reference_ath (conf s) = 0 then Inl ZeroDivisionError
             else
               (let out = 1 - port_price / dd_reference_ath (conf s) in
                if \<not> (0 \<le> out \<and> out < 1) then Inl AssertionError else Inr out)))"

text \<open>
  \<open>get_target_margin_use\<close> assigns to no attribute, writes no log line and calls no
  rule's \<open>validate\<close>: on every path the model returns the state as it was given and an
  empty list of effects.
\<close>

definition get_target_margin_use :: "app \<Rightarrow> real \<Rightarrow> (exn + real) \<times> app \<times> event list" where
  "get_target_margin_use s now =
     (if \<not> is_live s now then (Inl LivenessError, s, [])
      else
        (case effective_drawdown s now of
           Inl e \<Rightarrow> (Inl e, s, [])
         | Inr dd \<Rightarrow>
             (Inr (min (mu_at_ath (conf s) + dd_coef (conf s) * dd)
                       (block_level MARGIN_USAGE - 0.01)), s, [])))"

subsection \<open>Placement\<close>

text \<open>
  \<open>safe_place_order\<close>. \<open>reply\<close> is the order id with which the broker answers \<open>reqIds\<close>:
  it reaches the queue through the callback \<open>next_requested_id\<close> while the caller waits in
  \<open>get()\<close>.
\<close>

definition safe_place_order ::
  "app \<Rightarrow> real \<Rightarrow> SimpleContract \<Rightarrow> Order \<Rightarrow> int \<Rightarrow> (exn + unit) \<times> app \<times> event list" where
  "safe_place_order s now sc ord reply =
     (if \<not> audited ord then (Inl AssertionError, s, [])
      else
        (case next_requested_id s now reply of
           (Inl e, s1, evs1) \<Rightarrow> (Inl e, s1, ReqIds # evs1)
         | (Inr _, s1, evs1) \<Rightarrow>
           (case queue_get (order_id_queue s1) of
              Inl e \<Rightarrow> (Inl e, s1, ReqIds # evs1)
            | Inr (oid, q) \<Rightarrow>
              (case clear_any_untransmitted_order (s1\<lparr>order_id_queue := q\<rparr>) now sc of
                 (s3, evs3) \<Rightarrow>
                   (case enter_order now (order_manager s3) sc oid ord of
                      (entered, om4) \<Rightarrow>
                        if \<not> entered then
                          (case get_state now om4 sc of
                             (st, om5) \<Rightarrow>
                               (Inr (), s3\<lparr>order_manager := om5\<rparr>,
                                ReqIds # evs1 @ [QueueGet oid] @ evs3
                                  @ [AppLog DEBUG ''Order rejected by manager'']))
                        else
                          (Inr (), s3\<lparr>order_manager := om4\<rparr>,
                           ReqIds # evs1 @ [QueueGet oid] @ evs3
                             @ [PlaceOrder oid sc ord, AppLog INFO ''Placed order'']))))))"

subsection \<open>The error channel\<close>

text \<open>The dictionary that maps the level names of \<open>PERMIT_ERROR\<close> to the logger's methods.\<close>

definition log_method :: "string \<Rightarrow> level option" where
  "log_method = map_of [(''DEBUG'', DEBUG), (''INFO'', INFO), (''WARNING'', WARNING)]"

definition error :: "app \<Rightarrow> real \<Rightarrow> int \<Rightarrow> int \<Rightarrow> string \<Rightarrow> (exn + unit) \<times> app \<times> event list" where
  "error s now req_id error_code error_string =
     (let msg = ''TWS error channel: '' @ error_string in
      if error_code = 420 then kill_app s now ''error 420 you need to chill''
      else
        (case PERMIT_ERROR error_code of
           Some lvl \<Rightarrow>
             (case log_method lvl of
                None \<Rightarrow> (Inl KeyError, s, [])
              | Some l \<Rightarrow> (Inr (), s, [AppLog l msg]))
         | None \<Rightarrow> kill_app s now msg))"

subsection \<open>Reading the configuration\<close>

text \<open>
  The \<open>ConfigParser\<close> is the standard library's; its text syntax is not modelled. An option's
  text is classified by what it denotes: an integer literal, another float literal, one of
  the boolean words, or anything else. On a section, \<open>getfloat\<close>, \<open>getint\<close> and
  \<open>getboolean\<close> return \<open>None\<close> for an option that is absent and raise \<open>ValueError\<close> for
  a text that they cannot convert; indexing the parser with a section that is absent raises
  \<open>KeyError\<close>.
\<close>

datatype cfg_text = IntText int | FloatText real | BoolText bool | OtherText

type_synonym cfg_section = "string \<Rightarrow> cfg_text option"
type_synonym ConfigParser = "string \<Rightarrow> cfg_section option"

definition cfg_getitem :: "ConfigParser \<Rightarrow> string \<Rightarrow> exn + cfg_section" where
  "cfg_getitem cfg sec = (case cfg sec of None \<Rightarrow> Inl KeyError | Some sect \<Rightarrow> Inr sect)"

definition getfloat :: "cfg_section \<Rightarrow> string \<Rightarrow> exn + real option" where
  "getfloat sect key =
     (case sect key of
        None \<Rightarrow> Inr None
      | Some (IntText n) \<Rightarrow> Inr (Some (real_of_int n))
      | Some (FloatText x) \<Rightarrow> Inr (Some x)
      | Some _ \<Rightarrow> Inl ValueError)"

definition getint :: "cfg_section \<Rightarrow> string \<Rightarrow> exn + int option" where
  "getint sect key =
     (case sect key of
        None \<Rightarrow> Inr None
      | Some (IntText n) \<Rightarrow> Inr (Some n)
      | Some _ \<Rightarrow> Inl ValueError)"

definition getboolean :: "cfg_section \<Rightarrow> string \<Rightarrow> exn + bool option" where
  "getboolean sect key =
     (case sect key of
        None \<Rightarrow> Inr None
      | Some (BoolText b) \<Rightarrow> Inr (Some b)
      | Some (IntText n) \<Rightarrow>
          if n = 1 then Inr (Some True) else if n = 0 then Inr (Some False) else Inl ValueError
      | Some _ \<Rightarrow> Inl ValueError)"

text \<open>Sequencing of steps that can raise and that leave log lines and prompts behind.\<close>

definition io_bind ::
  "(exn + 'a) \<times> event list \<Rightarrow> ('a \<Rightarrow> (exn + 'b) \<times> event list) \<Rightarrow> (exn + 'b) \<times> event list" where
  "io_bind m f =
     (case m of
        (Inl e, evs) \<Rightarrow> (Inl e, evs)
      | (Inr x, evs) \<Rightarrow> (case f x of (res, evs') \<Rightarrow> (res, evs @ evs')))"

definition io_lift :: "exn + 'a \<Rightarrow> (exn + 'a) \<times> event list" where
  "io_lift res = (res, [])"

text \<open>
  \<open>Policy.NAME.validate(value)\<close> as Python evaluates it: first the attribute \<open>NAME\<close> of
  \<open>Policy\<close> and its method \<open>validate\<close> (\<open>AttributeError\<close> if the class does not bind the
  name, or binds it to a plain number), then the argument, then the call; comparing \<open>None\<close>
  with a level raises \<open>TypeError\<close>. \<open>answers\<close> gives the operator's answer to the prompt
  of each rule, by the rule's name.
\<close>

definition Policy_rule :: "string \<Rightarrow> exn + real ThreeTierGeneric" where
  "Policy_rule attr =
     (case Policy attr of Some (Rule r) \<Rightarrow> Inr r | _ \<Rightarrow> Inl AttributeError)"

definition validate_float ::
  "string \<Rightarrow> cfg_section \<Rightarrow> string \<Rightarrow> (string \<Rightarrow> string) \<Rightarrow> (exn + real option) \<times> event list" where
  "validate_float attr sect key answers =
     io_bind (io_lift (Policy_rule attr)) (\<lambda>r.
     io_bind (io_lift (getfloat sect key)) (\<lambda>v.
       case v of
         None \<Rightarrow> (Inl TypeError, [])
       | Some x \<Rightarrow> io_bind (validate r x (answers (name r))) (\<lambda>y. (Inr (Some y), []))))"

definition validate_int ::
  "string \<Rightarrow> cfg_section \<Rightarrow> string \<Rightarrow> (string \<Rightarrow> string) \<Rightarrow> (exn + int option) \<times> event list" where
  "validate_int attr sect key answers =
     io_bind (io_lift (Policy_rule attr)) (\<lambda>r.
     io_bind (io_lift (getint sect key)) (\<lambda>v.
       case v of
         None \<Rightarrow> (Inl TypeError, [])
       | Some n \<Rightarrow> io_bind (validate r (real_of_int n) (answers (name r))) (\<lambda>y. (Inr (Some n), []))))"

text \<open>
  The dataclass constructor with \<open>__post_init__\<close>: no field is \<open>None\<close>, the forcing elbow
  is at least the minimum fraction, which exceeds 1, and the forcing coefficient is positive.
\<close>

definition AutorebalanceConfig_new ::
  "real option \<Rightarrow> real option \<Rightarrow> real option \<Rightarrow> int option \<Rightarrow> real option \<Rightarrow> real option \<Rightarrow>
   real option \<Rightarrow> real option \<Rightarrow> int option \<Rightarrow> real option \<Rightarrow> real option \<Rightarrow> real option \<Rightarrow>
   bool option \<Rightarrow> exn + AutorebalanceConfig" where
  "AutorebalanceConfig_new ath mu dd dollars mfrac elbow coef mreq tmo slip freq live arm =
     (case (ath, mu, dd, dollars, mfrac, elbow, coef, mreq, tmo, slip, freq, live, arm) of
        (Some ath', Some mu', Some dd', Some dollars', Some mfrac', Some elbow', Some coef',
         Some mreq', Some tmo', Some slip', Some freq', Some live', Some arm') \<Rightarrow>
          if \<not> (elbow' \<ge> mfrac' \<and> mfrac' > 1.0) then Inl AssertionError
          else if \<not> coef' > 0.0 then Inl AssertionError
          else Inr \<lparr>dd_reference_ath = ath', mu_at_ath = mu', dd_coef = dd',
                    misalloc_min_dollars = dollars', misalloc_min_frac = mfrac',
                    misalloc_frac_force_elbow = elbow', misalloc_frac_force_coef = coef',
                    conf_min_margin_req = mreq', order_timeout = tmo', max_slippage = slip',
                    rebalance_freq = freq', liveness_timeout = live', armed = arm'\<rparr>
      | _ \<Rightarrow> Inl AssertionError)"

text \<open>
  \<open>read_config\<close>: the keyword arguments of the constructor call are evaluated in the order
  in which they are written, then the constructor runs.
\<close>

definition read_config ::
  "ConfigParser \<Rightarrow> (string \<Rightarrow> string) \<Rightarrow> (exn + AutorebalanceConfig) \<times> event list" where
  "read_config cfg answers =
     io_bind (io_lift (cfg_getitem cfg ''strategy'')) (\<lambda>strategy.
     io_bind (io_lift (cfg_getitem cfg ''orders'')) (\<lambda>orders.
     io_bind (io_lift (getfloat strategy ''dd_reference_ath'')) (\<lambda>ath.
     io_bind (validate_float ''ATH_MARGIN_USE'' strategy ''mu_at_ath'' answers) (\<lambda>mu.
     io_bind (validate_float ''DRAWDOWN_COEFFICIENT'' strategy ''dd_coef'' answers) (\<lambda>dd.
     io_bind (validate_int ''MISALLOC_DOLLARS'' strategy ''misalloc_min_dollars'' answers) (\<lambda>dollars.
     io_bind (validate_float ''MISALLOC_FRACTION'' strategy ''misalloc_min_frac'' answers) (\<lambda>mfrac.
     io_bind (validate_float ''MARGIN_REQ'' strategy ''min_margin_req'' answers) (\<lambda>mreq.
     io_bind (io_lift (getfloat strategy ''misalloc_frac_force_elbow'')) (\<lambda>elbow.
     io_bind (io_lift (getfloat strategy ''misalloc_frac_force_coef'')) (\<lambda>coef.
     io_bind (io_lift (cfg_getitem cfg ''app'')) (\<lambda>app1.
     io_bind (io_lift (getfloat app1 ''rebalance_freq'')) (\<lambda>freq.
     io_bind (io_lift (cfg_getitem cfg ''app'')) (\<lambda>app2.
     io_bind (io_lift (getfloat app2 ''liveness_timeout'')) (\<lambda>live.
     io_bind (io_lift (cfg_getitem cfg ''app'')) (\<lambda>app3.
     io_bind (io_lift (getboolean app3 ''armed'')) (\<lambda>arm.
     io_bind (io_lift (getint orders ''order_timeout'')) (\<lambda>tmo.
     io_bind (io_lift (getfloat orders ''max_slippage'')) (\<lambda>slip.
       io_lift (AutorebalanceConfig_new ath mu dd dollars mfrac elbow coef mreq tmo slip
                  freq live arm)))))))))))))))))))"

section \<open>Concrete states\<close>

text \<open>
  Two instruments with equal weights, an all-time-high reference of 20, an account snapshot
  taken at second 990 and bars of second 995 with close 10; used at the clock reading 1000.
\<close>

definition sc_A :: SimpleContract where "sc_A = SimpleContract ''A'' ''ARCA'' ''USD''"
definition sc_B :: SimpleContract where "sc_B = SimpleContract ''B'' ''ARCA'' ''USD''"

definition fresh_order :: Order where
  "fresh_order = \<lparr>orderType = ''MIDPRICE'', transmit = False, outsideRth = False,
                  action = ''BUY'', totalQuantity = 50, lmtPrice = 10.01, audited = False\<rparr>"

definition audited_order :: Order where
  "audited_order = fresh_order\<lparr>audited := True\<rparr>"

definition example_conf :: AutorebalanceConfig where
  "example_conf = \<lparr>dd_reference_ath = 20, mu_at_ath = 0.15, dd_coef = 1.4,
     misalloc_min_dollars = 700, misalloc_min_frac = 1.1, misalloc_frac_force_elbow = 1.5,
     misalloc_frac_force_coef = 1, conf_min_margin_req = 0.3, order_timeout = 30,
     max_slippage = 0.01, rebalance_freq = 5, liveness_timeout = 30, armed = False\<rparr>"

definition bar_at :: "int \<Rightarrow> real \<Rightarrow> OHLCBar" where
  "bar_at sec px = \<lparr>bar_t = sec, bar_o = px, bar_h = px, bar_l = px, bar_c = px\<rparr>"

definition example_app :: app where
  "example_app =
     \<lparr>acct_state =
        Some \<lparr>gpv = 1000, ewlv = 1000, r0 = 250, min_margin_req = 0.3, captured = 990\<rparr>,
      portfolio_prices = [sc_A \<mapsto> bar_at 995 10, sc_B \<mapsto> bar_at 995 10],
      target_composition =
        \<lparr>contracts = [sc_A, sc_B], weights = [sc_A \<mapsto> 0.5, sc_B \<mapsto> 0.5]\<rparr>,
      conf = example_conf,
      order_id_queue = [],
      order_manager = []\<rparr>"

text \<open>The same state with a bar of \<open>sc_B\<close> that is 30 seconds old at second 1000.\<close>

definition stale_app :: app where
  "stale_app = example_app\<lparr>portfolio_prices := [sc_A \<mapsto> bar_at 995 10, sc_B \<mapsto> bar_at 970 10]\<rparr>"

text \<open>The same state with closes of 30: the composition is worth more than the reference.\<close>

definition above_ath_app :: app where
  "above_ath_app = example_app\<lparr>portfolio_prices := [sc_A \<mapsto> bar_at 995 30, sc_B \<mapsto> bar_at 995 30]\<rparr>"

text \<open>States in which \<open>sc_A\<close> has an entry with order id 7 in each of the three states.\<close>

definition entry_app :: "OMState \<Rightarrow> real \<Rightarrow> app" where
  "entry_app st stamped = example_app\<lparr>order_manager :=
     [(sc_A, \<lparr>om_oid = 7, om_order = audited_order, om_state = st, om_stamp = stamped\<rparr>)]\<rparr>"

text \<open>The example state with an order id already waiting in the queue.\<close>

definition full_queue_app :: app where
  "full_queue_app = example_app\<lparr>order_id_queue := [5]\<rparr>"

text \<open>A rule built with a notify level above the confirm level and an overriding comparison.\<close>

definition inverted_rule :: "real ThreeTierGeneric" where
  "inverted_rule =
     \<lparr>name = ''X'', block_level = 0.8, confirm_level = 0.6, notify_level = 0.7,
      confirm_msg = ''m'', cmp_op = (\<lambda>a b. a < b)\<rparr>"

text \<open>A configuration with every key present, well-formed and below every notify level
  that asks for confirmation.\<close>

definition example_cfg :: ConfigParser where
  "example_cfg =
     [''strategy'' \<mapsto>
        [''dd_reference_ath'' \<mapsto> FloatText 20,
         ''mu_at_ath'' \<mapsto> FloatText 0.15,
         ''dd_coef'' \<mapsto> FloatText 1.4,
         ''misalloc_min_dollars'' \<mapsto> IntText 700,
         ''misalloc_min_frac'' \<mapsto> FloatText 1.1,
         ''misalloc_frac_force_elbow'' \<mapsto> FloatText 1.5,
         ''misalloc_frac_force_coef'' \<mapsto> FloatText 1,
         ''min_margin_req'' \<mapsto> FloatText 0.3],
      ''orders'' \<mapsto>
        [''order_timeout'' \<mapsto> IntText 30,
         ''max_slippage'' \<mapsto> FloatText 0.01],
      ''app'' \<mapsto>
        [''rebalance_freq'' \<mapsto> FloatText 5,
         ''liveness_timeout'' \<mapsto> FloatText 30,
         ''armed'' \<mapsto> BoolText False]]"

section \<open>Properties of the tiered validation\<close>

text \<open>
  C1. For every three-tier rule \<open>r\<close> and every value \<open>v\<close>: if \<open>v\<close> crosses the block level
  in the rule's direction, \<open>validate\<close> raises \<open>SecurityFault\<close> (one error line, no prompt);
  if \<open>v\<close> crosses the confirm level but not the block level, there is exactly one prompt,
  and \<open>validate\<close> returns \<open>v\<close> when the answer is exactly \<open>YES\<close> and raises
  \<open>SecurityFault\<close> for every other answer; otherwise it returns \<open>v\<close> without a prompt,
  logging at info or debug. For the margin-usage rule (block 0.80, confirm 0.60, notify
  0.40): \<open>validate(0.85)\<close> raises, \<open>validate(0.70)\<close> returns 0.70 if and only if the answer
  is \<open>YES\<close>, and \<open>validate(0.50)\<close> and \<open>validate(0.10)\<close> return the value.
\<close>

theorem validate_three_tier:
  "(cmp_op r v (block_level r) \<longrightarrow>
      validate r v ans = (Inl SecurityFault, [SecLog ERROR (name r)]))
   \<and> (\<not> cmp_op r v (block_level r) \<and> cmp_op r v (confirm_level r) \<longrightarrow>
        (ans = ''YES'' \<longrightarrow>
           validate r v ans = (Inr v, [Prompt (name r), SecLog WARNING (name r)]))
      \<and> (ans \<noteq> ''YES'' \<longrightarrow> validate r v ans = (Inl SecurityFault, [Prompt (name r)])))
   \<and> (\<not> cmp_op r v (block_level r) \<and> \<not> cmp_op r v (confirm_level r) \<longrightarrow>
        validate r v ans =
          (Inr v, [SecLog (if cmp_op r v (notify_level r) then INFO else DEBUG) (name r)]))
   \<and> validate MARGIN_USAGE 0.85 ans = (Inl SecurityFault, [SecLog ERROR ''MARGIN USAGE''])
   \<and> (fst (validate MARGIN_USAGE 0.70 ans) = Inr 0.70 \<longleftrightarrow> ans = ''YES'')
   \<and> (fst (validate MARGIN_USAGE 0.70 ans) = Inl SecurityFault \<longleftrightarrow> ans \<noteq> ''YES'')
   \<and> validate MARGIN_USAGE 0.50 ans = (Inr 0.50, [SecLog INFO ''MARGIN USAGE''])
   \<and> validate MARGIN_USAGE 0.10 ans = (Inr 0.10, [SecLog DEBUG ''MARGIN USAGE''])"
  by (simp add: validate_def confirm_danger_def MARGIN_USAGE_def max_rule_def)

theorem validate_three_tier_witness:
  "validate MARGIN_USAGE 0.85 ''YES'' = (Inl SecurityFault, [SecLog ERROR ''MARGIN USAGE''])
   \<and> validate MARGIN_USAGE 0.70 ''YES''
       = (Inr 0.70, [Prompt ''MARGIN USAGE'', SecLog WARNING ''MARGIN USAGE''])
   \<and> validate MARGIN_USAGE 0.70 ''yes'' = (Inl SecurityFault, [Prompt ''MARGIN USAGE''])
   \<and> validate MARGIN_USAGE 0.50 ''NO'' = (Inr 0.50, [SecLog INFO ''MARGIN USAGE''])"
  using validate_three_tier [of MARGIN_USAGE "0.85" "''YES''"]
    validate_three_tier [of MARGIN_USAGE "0.70" "''YES''"]
    validate_three_tier [of MARGIN_USAGE "0.70" "''yes''"]
    validate_three_tier [of MARGIN_USAGE "0.50" "''NO''"]
  by (simp add: MARGIN_USAGE_def max_rule_def)

text \<open>
  C7, as the claim states it, fails: the constructor of the maximum family accepts the
  levels block 0.8, confirm 0.6, notify 0.7 together with an overriding comparison, and the
  rule it builds has its notify level above its confirm level and does not compare with
  greater-than.
\<close>

theorem three_tier_ordering_counterexample:
  "ThreeTierNMax ''X'' (0.8::real) 0.6 0.7 ''m'' (Callable (\<lambda>a b. a < b)) = Inr inverted_rule
   \<and> \<not> confirm_level inverted_rule > notify_level inverted_rule
   \<and> cmp_op inverted_rule \<noteq> (\<lambda>a b. a > b)"
proof -
  have "cmp_op inverted_rule 1 2 \<noteq> (\<lambda>a b::real. a > b) 1 2"
    by (simp add: inverted_rule_def)
  then have "cmp_op inverted_rule \<noteq> (\<lambda>a b. a > b)" by metis
  then show ?thesis by (simp add: ThreeTierNMax_def inverted_rule_def)
qed

text \<open>
  C7, amended. Every constructed maximum-family rule has its block level above its confirm
  level, and every constructed minimum-family rule has its block level below its confirm
  level; the notify level is not checked. The comparison is greater-than, respectively
  less-than, whenever the constructor call does not pass one. Construction fails on a
  violation of the order of block and confirm level. Every rule of the \<open>Policy\<close> catalogue
  is what its family's constructor returns, satisfies the full order of its family (block,
  confirm, notify) and compares with its family's operator.
\<close>

theorem three_tier_construction:
  "(ThreeTierNMax nm blk cnf ntf msg arg = Inr r \<longrightarrow>
      block_level r > confirm_level r \<and> (arg = Omitted \<longrightarrow> cmp_op r = (\<lambda>a b. a > b)))
   \<and> (ThreeTierNMin nm blk cnf ntf msg arg = Inr r' \<longrightarrow>
      block_level r' < confirm_level r' \<and> (arg = Omitted \<longrightarrow> cmp_op r' = (\<lambda>a b. a < b)))
   \<and> (\<not> blk > cnf \<longrightarrow> ThreeTierNMax nm blk cnf ntf msg arg = Inl AssertionError)
   \<and> (\<not> blk < cnf \<longrightarrow> ThreeTierNMin nm blk cnf ntf msg arg = Inl AssertionError)
   \<and> (\<forall>R \<in> set [MARGIN_USAGE, LOAN_AMT, MISALLOCATION, ORDER_QTY, ORDER_TOTAL, ATH_MARGIN_USE,
                   DRAWDOWN_COEFFICIENT].
         ThreeTierNMax (name R) (block_level R) (confirm_level R) (notify_level R)
           (confirm_msg R) Omitted = Inr R
         \<and> block_level R > confirm_level R \<and> confirm_level R > notify_level R
         \<and> cmp_op R = (\<lambda>a b. a > b))
   \<and> (\<forall>R \<in> set [MARGIN_REQ, MISALLOC_DOLLARS, REBALANCE_TRIGGER].
         ThreeTierNMin (name R) (block_level R) (confirm_level R) (notify_level R)
           (confirm_msg R) Omitted = Inr R
         \<and> block_level R < confirm_level R \<and> confirm_level R < notify_level R
         \<and> cmp_op R = (\<lambda>a b. a < b))"
proof -
  have mx: "ThreeTierNMax nm blk cnf ntf msg arg = Inr r \<longrightarrow>
      block_level r > confirm_level r \<and> (arg = Omitted \<longrightarrow> cmp_op r = (\<lambda>a b. a > b))"
    by (cases arg) (auto simp: ThreeTierNMax_def split: if_splits)
  have mn: "ThreeTierNMin nm blk cnf ntf msg arg = Inr r' \<longrightarrow>
      block_level r' < confirm_level r' \<and> (arg = Omitted \<longrightarrow> cmp_op r' = (\<lambda>a b. a < b))"
    by (cases arg) (auto simp: ThreeTierNMin_def split: if_splits)
  have fx: "\<not> blk > cnf \<longrightarrow> ThreeTierNMax nm blk cnf ntf msg arg = Inl AssertionError"
    by (cases arg) (simp_all add: ThreeTierNMax_def)
  have fn: "\<not> blk < cnf \<longrightarrow> ThreeTierNMin nm blk cnf ntf msg arg = Inl AssertionError"
    by (cases arg) (simp_all add: ThreeTierNMin_def)
  have cx: "\<forall>R \<in> set [MARGIN_USAGE, LOAN_AMT, MISALLOCATION, ORDER_QTY, ORDER_TOTAL, ATH_MARGIN_USE,
                   DRAWDOWN_COEFFICIENT].
         ThreeTierNMax (name R) (block_level R) (confirm_level R) (notify_level R)
           (confirm_msg R) Omitted = Inr R
         \<and> block_level R > confirm_level R \<and> confirm_level R > notify_level R
         \<and> cmp_op R = (\<lambda>a b. a > b)"
    by (simp add: ThreeTierNMax_def max_rule_def MARGIN_USAGE_def LOAN_AMT_def
        MISALLOCATION_def ORDER_QTY_def ORDER_TOTAL_def ATH_MARGIN_USE_def
        DRAWDOWN_COEFFICIENT_def)
  have cn: "\<forall>R \<in> set [MARGIN_REQ, MISALLOC_DOLLARS, REBALANCE_TRIGGER].
         ThreeTierNMin (name R) (block_level R) (confirm_level R) (notify_level R)
           (confirm_msg R) Omitted = Inr R
         \<and> block_level R < confirm_level R \<and> confirm_level R < notify_level R
         \<and> cmp_op R = (\<lambda>a b. a < b)"
    by (simp add: ThreeTierNMin_def min_rule_def MARGIN_REQ_def MISALLOC_DOLLARS_def
        REBALANCE_TRIGGER_def)
  from mx mn fx fn cx cn show ?thesis by blast
qed

theorem three_tier_construction_witness:
  "ThreeTierNMax ''MARGIN USAGE'' (0.80::real) 0.60 0.40 ''High margin usage.'' Omitted
     = Inr MARGIN_USAGE
   \<and> block_level MARGIN_USAGE > confirm_level MARGIN_USAGE
   \<and> cmp_op MARGIN_USAGE = (\<lambda>a b. a > b)
   \<and> ThreeTierNMin ''MARGIN REQ'' (0.15::real) 0.20 0.25 ''Low margin requirement.'' Omitted
     = Inr MARGIN_REQ
   \<and> block_level MARGIN_REQ < confirm_level MARGIN_REQ
   \<and> cmp_op MARGIN_REQ = (\<lambda>a b. a < b)
   \<and> ThreeTierNMax ''X'' (0.6::real) 0.8 0.4 ''m'' Omitted = Inl AssertionError
   \<and> ThreeTierNMin ''X'' (0.8::real) 0.6 0.9 ''m'' Omitted = Inl AssertionError"
  using three_tier_construction
          [of "''MARGIN USAGE''" "0.80::real" "0.60" "0.40" "''High margin usage.''" Omitted
              MARGIN_USAGE MARGIN_REQ]
        three_tier_construction
          [of "''MARGIN REQ''" "0.15::real" "0.20" "0.25" "''Low margin requirement.''" Omitted
              MARGIN_USAGE MARGIN_REQ]
        three_tier_construction [of "''X''" "0.6::real" "0.8" "0.4" "''m''" Omitted]
        three_tier_construction [of "''X''" "0.8::real" "0.6" "0.9" "''m''" Omitted]
  by (simp add: ThreeTierNMax_def ThreeTierNMin_def MARGIN_USAGE_def MARGIN_REQ_def
      max_rule_def min_rule_def)

section \<open>Properties of shutdown and of the Order Manager\<close>

lemma clear_any_queue:
  "order_id_queue (fst (clear_any_untransmitted_order s now sc)) = order_id_queue s"
  by (simp add: clear_any_untransmitted_order_def split: prod.splits option.splits)

lemma clear_any_events:
  "set (snd (clear_any_untransmitted_order s now sc)) \<subseteq> range CancelOrder \<union> {Sleep}"
  by (auto simp: clear_any_untransmitted_order_def safe_cancel_order_def
      split: prod.splits option.splits)

lemma clear_all_queue:
  "order_id_queue (fst (clear_all s now scs)) = order_id_queue s"
proof (induction scs arbitrary: s)
  case Nil
  show ?case by simp
next
  case (Cons sc scs)
  obtain s1 evs1 where a: "clear_any_untransmitted_order s now sc = (s1, evs1)"
    by (cases "clear_any_untransmitted_order s now sc")
  have "order_id_queue s1 = order_id_queue s"
    using clear_any_queue [of s now sc] a by simp
  with Cons.IH [of s1] a show ?case by (auto split: prod.splits)
qed

lemma clear_all_events:
  "set (snd (clear_all s now scs)) \<subseteq> range CancelOrder \<union> {Sleep}"
proof (induction scs arbitrary: s)
  case Nil
  show ?case by simp
next
  case (Cons sc scs)
  obtain s1 evs1 where a: "clear_any_untransmitted_order s now sc = (s1, evs1)"
    by (cases "clear_any_untransmitted_order s now sc")
  have "set evs1 \<subseteq> range CancelOrder \<union> {Sleep}"
    using clear_any_events [of s now sc] a by simp
  with Cons.IH [of s1] a show ?case by (auto split: prod.splits)
qed

lemma kill_app_result: "fst (kill_app s now msg) = Inl (SystemExit (- 1))"
  by (simp add: kill_app_def shut_down_def split: prod.splits)

lemma kill_app_queue: "order_id_queue (fst (snd (kill_app s now msg))) = order_id_queue s"
  using clear_all_queue [of s now "contracts (target_composition s)"]
  by (auto simp: kill_app_def shut_down_def split: prod.splits)

lemma kill_app_events:
  "\<exists>evs. snd (snd (kill_app s now msg))
            = AppLog CRITICAL (''Killed: '' @ msg) # evs @ [Disconnect, SysExit (- 1)]
         \<and> set evs \<subseteq> range CancelOrder \<union> {Sleep}"
  using clear_all_events [of s now "contracts (target_composition s)"]
  by (auto simp: kill_app_def shut_down_def split: prod.splits)

lemma kill_app_no_place: "PlaceOrder oid sc ord \<notin> set (snd (snd (kill_app s now msg)))"
  using kill_app_events [of s now msg] by auto

lemma om_expire_None: "map_of om sc = None \<Longrightarrow> om_expire now om sc = om"
  by (simp add: om_expire_def)

lemma om_expire_keep:
  "map_of om sc = Some e \<Longrightarrow> \<not> (om_state e = COOLOFF \<and> now - om_stamp e > ORDER_COOLOFF)
     \<Longrightarrow> om_expire now om sc = om"
  by (auto simp: om_expire_def)

lemma om_expire_drop:
  "map_of om sc = Some e \<Longrightarrow> om_state e = COOLOFF \<Longrightarrow> now - om_stamp e > ORDER_COOLOFF
     \<Longrightarrow> om_expire now om sc = AList.delete sc om"
  by (simp add: om_expire_def)

lemma map_of_delete_same: "map_of (AList.delete sc om) sc = None"
  by (simp add: delete_conv)

lemma get_state_Some:
  "fst (get_state now om sc) = Some st \<Longrightarrow>
     om_expire now om sc = om \<and> (\<exists>e. map_of om sc = Some e \<and> om_state e = st)"
  by (auto simp: get_state_def om_expire_def Let_def map_of_delete_same
      split: option.splits if_splits)

lemma queue_reset: "order_id_queue s = [] \<Longrightarrow> s\<lparr>order_id_queue := []\<rparr> = s"
  by (cases s) simp

lemma safe_place_order_empty_queue:
  assumes "audited ord" and "order_id_queue s = []"
  shows "safe_place_order s now sc ord reply =
     (case clear_any_untransmitted_order s now sc of
        (s3, evs3) \<Rightarrow>
          (case enter_order now (order_manager s3) sc reply ord of
             (entered, om4) \<Rightarrow>
               if \<not> entered then
                 (Inr (), s3\<lparr>order_manager := snd (get_state now om4 sc)\<rparr>,
                  [ReqIds, QueueGet reply] @ evs3 @ [AppLog DEBUG ''Order rejected by manager''])
               else
                 (Inr (), s3\<lparr>order_manager := om4\<rparr>,
                  [ReqIds, QueueGet reply] @ evs3
                    @ [PlaceOrder reply sc ord, AppLog INFO ''Placed order''])))"
  using assms
  by (simp add: safe_place_order_def next_requested_id_def put_nowait_def
      order_id_queue_maxsize_def queue_get_def queue_reset split: prod.splits)

lemma safe_place_order_full_queue:
  assumes "audited ord" and "order_id_queue s \<noteq> []"
  shows "safe_place_order s now sc ord reply =
     (case kill_app s now ''Full order queue -- should not be possible.'' of
        (res, s1, evs1) \<Rightarrow> (Inl (SystemExit (- 1)), s1, ReqIds # evs1))"
proof -
  have "next_requested_id s now reply = kill_app s now ''Full order queue -- should not be possible.''"
    using assms(2)
    by (cases "order_id_queue s")
       (simp_all add: next_requested_id_def put_nowait_def order_id_queue_maxsize_def)
  then show ?thesis
    using assms(1) kill_app_result [of s now "''Full order queue -- should not be possible.''"]
    by (auto simp: safe_place_order_def split: prod.splits sum.splits)
qed

lemma safe_place_order_queue:
  "order_id_queue (fst (snd (safe_place_order s now sc ord reply))) = order_id_queue s"
proof (cases "audited ord")
  case False
  then show ?thesis by (simp add: safe_place_order_def)
next
  case True
  show ?thesis
  proof (cases "order_id_queue s = []")
    case True
    with \<open>audited ord\<close> clear_any_queue [of s now sc] show ?thesis
      by (auto simp: safe_place_order_empty_queue split: prod.splits)
  next
    case False
    with \<open>audited ord\<close> kill_app_queue [of s now "''Full order queue -- should not be possible.''"]
    show ?thesis
      by (auto simp: safe_place_order_full_queue split: prod.splits)
  qed
qed

lemma safe_place_order_places:
  assumes "PlaceOrder oid' sc' ord' \<in> set (snd (snd (safe_place_order s now sc ord reply)))"
  shows "audited ord \<and> ord' = ord \<and> sc' = sc \<and> oid' = reply"
proof (cases "audited ord")
  case False
  with assms show ?thesis by (simp add: safe_place_order_def)
next
  case True
  show ?thesis
  proof (cases "order_id_queue s = []")
    case True
    with \<open>audited ord\<close> assms clear_any_events [of s now sc] show ?thesis
      by (auto simp: safe_place_order_empty_queue split: prod.splits if_splits)
  next
    case False
    with \<open>audited ord\<close> assms
      kill_app_no_place [of oid' sc' ord' s now "''Full order queue -- should not be possible.''"]
    show ?thesis
      by (auto simp: safe_place_order_full_queue split: prod.splits)
  qed
qed

lemma same_manager: "order_manager s = om \<Longrightarrow> s\<lparr>order_manager := om\<rparr> = s"
  by (cases s) simp

section \<open>Properties of the application\<close>

text \<open>
  C2, as the claim states it, fails: with a \<open>PENDING\<close> entry (order id 7) for the
  instrument, the fresh order id is requested and received before the old entry is
  retracted; what precedes the cancellation of order 7 is the request and the receipt of
  the new id.
\<close>

theorem placement_order_counterexample:
  "snd (snd (safe_place_order (entry_app PENDING 0) 1000 sc_A audited_order 8))
     = [ReqIds, QueueGet 8, CancelOrder 7, Sleep, PlaceOrder 8 sc_A audited_order,
        AppLog INFO ''Placed order'']
   \<and> takeWhile (\<lambda>ev. ev \<noteq> CancelOrder 7)
        (snd (snd (safe_place_order (entry_app PENDING 0) 1000 sc_A audited_order 8)))
     = [ReqIds, QueueGet 8]"
  by (simp add: entry_app_def example_app_def audited_order_def fresh_order_def
      safe_place_order_def next_requested_id_def put_nowait_def order_id_queue_maxsize_def
      queue_get_def clear_any_untransmitted_order_def clear_untransmitted_def om_expire_def
      enter_order_def safe_cancel_order_def)

text \<open>
  C2, amended. For every placement of an audited order, entered with an empty order-id
  queue, \<open>safe_place_order\<close> performs in this order: it requests a fresh broker order id and
  takes it from the queue (a \<open>get\<close> without timeout); then it retracts an existing
  not-yet-transmitted entry of the instrument, cancelling that entry's order id; then it
  admits the new entry into the Order Manager; and only then it issues the broker's
  placement call. If admission fails because an entry exists (\<open>TRANSMITTED\<close>, or \<open>COOLOFF\<close>
  within the quiet period), it logs the rejection and returns without placing and without
  changing the state. An entry in \<open>COOLOFF\<close> whose quiet period is over is dropped, and the
  order is placed.
\<close>

theorem placement_sequence:
  assumes "audited ord" and "order_id_queue s = []"
  shows
  "(map_of (order_manager s) sc = None \<longrightarrow>
      safe_place_order s now sc ord reply =
        (Inr (),
         s\<lparr>order_manager := AList.update sc
              \<lparr>om_oid = reply, om_order = ord, om_state = PENDING, om_stamp = 0\<rparr>
              (order_manager s)\<rparr>,
         [ReqIds, QueueGet reply, PlaceOrder reply sc ord, AppLog INFO ''Placed order'']))
   \<and> (\<forall>e. map_of (order_manager s) sc = Some e \<and> om_state e = PENDING \<longrightarrow>
      safe_place_order s now sc ord reply =
        (Inr (),
         s\<lparr>order_manager := AList.update sc
              \<lparr>om_oid = reply, om_order = ord, om_state = PENDING, om_stamp = 0\<rparr>
              (AList.delete sc (order_manager s))\<rparr>,
         [ReqIds, QueueGet reply, CancelOrder (om_oid e), Sleep, PlaceOrder reply sc ord,
          AppLog INFO ''Placed order'']))
   \<and> (\<forall>e. map_of (order_manager s) sc = Some e
          \<and> (om_state e = TRANSMITTED
              \<or> om_state e = COOLOFF \<and> \<not> now - om_stamp e > ORDER_COOLOFF) \<longrightarrow>
      safe_place_order s now sc ord reply =
        (Inr (), s, [ReqIds, QueueGet reply, AppLog DEBUG ''Order rejected by manager'']))
   \<and> (\<forall>e. map_of (order_manager s) sc = Some e
          \<and> om_state e = COOLOFF \<and> now - om_stamp e > ORDER_COOLOFF \<longrightarrow>
      safe_place_order s now sc ord reply =
        (Inr (),
         s\<lparr>order_manager := AList.update sc
              \<lparr>om_oid = reply, om_order = ord, om_state = PENDING, om_stamp = 0\<rparr>
              (AList.delete sc (order_manager s))\<rparr>,
         [ReqIds, QueueGet reply, PlaceOrder reply sc ord, AppLog INFO ''Placed order'']))"
proof -
  note unf = safe_place_order_empty_queue [OF assms, of now sc reply]
  have a: "map_of (order_manager s) sc = None \<longrightarrow>
      safe_place_order s now sc ord reply =
        (Inr (),
         s\<lparr>order_manager := AList.update sc
              \<lparr>om_oid = reply, om_order = ord, om_state = PENDING, om_stamp = 0\<rparr>
              (order_manager s)\<rparr>,
         [ReqIds, QueueGet reply, PlaceOrder reply sc ord, AppLog INFO ''Placed order''])"
    by (simp add: unf clear_any_untransmitted_order_def clear_untransmitted_def
        enter_order_def om_expire_None)
  have b: "\<forall>e. map_of (order_manager s) sc = Some e \<and> om_state e = PENDING \<longrightarrow>
      safe_place_order s now sc ord reply =
        (Inr (),
         s\<lparr>order_manager := AList.update sc
              \<lparr>om_oid = reply, om_order = ord, om_state = PENDING, om_stamp = 0\<rparr>
              (AList.delete sc (order_manager s))\<rparr>,
         [ReqIds, QueueGet reply, CancelOrder (om_oid e), Sleep, PlaceOrder reply sc ord,
          AppLog INFO ''Placed order''])"
    by (simp add: unf clear_any_untransmitted_order_def clear_untransmitted_def
        enter_order_def om_expire_keep om_expire_None map_of_delete_same safe_cancel_order_def)
  have c: "\<forall>e. map_of (order_manager s) sc = Some e
          \<and> (om_state e = TRANSMITTED
              \<or> om_state e = COOLOFF \<and> \<not> now - om_stamp e > ORDER_COOLOFF) \<longrightarrow>
      safe_place_order s now sc ord reply =
        (Inr (), s, [ReqIds, QueueGet reply, AppLog DEBUG ''Order rejected by manager''])"
  proof (intro allI impI)
    fix e
    assume h: "map_of (order_manager s) sc = Some e
          \<and> (om_state e = TRANSMITTED
              \<or> om_state e = COOLOFF \<and> \<not> now - om_stamp e > ORDER_COOLOFF)"
    then have k: "om_expire now (order_manager s) sc = order_manager s"
      by (auto intro: om_expire_keep)
    have p: "om_state e \<noteq> PENDING" using h by auto
    show "safe_place_order s now sc ord reply =
        (Inr (), s, [ReqIds, QueueGet reply, AppLog DEBUG ''Order rejected by manager''])"
      using h p
      by (simp add: unf clear_any_untransmitted_order_def clear_untransmitted_def
          enter_order_def get_state_def k same_manager)
  qed
  have d: "\<forall>e. map_of (order_manager s) sc = Some e
          \<and> om_state e = COOLOFF \<and> now - om_stamp e > ORDER_COOLOFF \<longrightarrow>
      safe_place_order s now sc ord reply =
        (Inr (),
         s\<lparr>order_manager := AList.update sc
              \<lparr>om_oid = reply, om_order = ord, om_state = PENDING, om_stamp = 0\<rparr>
              (AList.delete sc (order_manager s))\<rparr>,
         [ReqIds, QueueGet reply, PlaceOrder reply sc ord, AppLog INFO ''Placed order''])"
    by (simp add: unf clear_any_untransmitted_order_def clear_untransmitted_def
        enter_order_def om_expire_drop om_expire_None map_of_delete_same)
  from a b c d show ?thesis by blast
qed

theorem placement_sequence_witness:
  "audited audited_order \<and> order_id_queue (entry_app PENDING 0) = []
   \<and> safe_place_order example_app 1000 sc_A audited_order 8 =
        (Inr (),
         example_app\<lparr>order_manager :=
           [(sc_A, \<lparr>om_oid = 8, om_order = audited_order, om_state = PENDING, om_stamp = 0\<rparr>)]\<rparr>,
         [ReqIds, QueueGet 8, PlaceOrder 8 sc_A audited_order, AppLog INFO ''Placed order''])
   \<and> safe_place_order (entry_app PENDING 0) 1000 sc_A audited_order 8 =
        (Inr (),
         example_app\<lparr>order_manager :=
           [(sc_A, \<lparr>om_oid = 8, om_order = audited_order, om_state = PENDING, om_stamp = 0\<rparr>)]\<rparr>,
         [ReqIds, QueueGet 8, CancelOrder 7, Sleep, PlaceOrder 8 sc_A audited_order,
          AppLog INFO ''Placed order''])
   \<and> safe_place_order (entry_app TRANSMITTED 0) 1000 sc_A audited_order 8 =
        (Inr (), entry_app TRANSMITTED 0,
         [ReqIds, QueueGet 8, AppLog DEBUG ''Order rejected by manager''])
   \<and> safe_place_order (entry_app COOLOFF 900) 1000 sc_A audited_order 8 =
        (Inr (),
         example_app\<lparr>order_manager :=
           [(sc_A, \<lparr>om_oid = 8, om_order = audited_order, om_state = PENDING, om_stamp = 0\<rparr>)]\<rparr>,
         [ReqIds, QueueGet 8, PlaceOrder 8 sc_A audited_order, AppLog INFO ''Placed order''])"
proof -
  have au: "audited audited_order"
    by (simp add: audited_order_def)
  have q: "order_id_queue example_app = []" "order_id_queue (entry_app st stamped) = []"
    for st stamped
    by (simp_all add: entry_app_def example_app_def)
  show ?thesis
    using placement_sequence [OF au q(1), of sc_A 1000 8]
      placement_sequence [OF au q(2), of PENDING 0 sc_A 1000 8]
      placement_sequence [OF au q(2), of TRANSMITTED 0 sc_A 1000 8]
      placement_sequence [OF au q(2), of COOLOFF 900 sc_A 1000 8]
    by (simp add: au entry_app_def example_app_def ORDER_COOLOFF_def)
qed

text \<open>
  C3. \<open>audit_order\<close> returns the order, marked as audited, exactly if the order type is
  \<open>MIDPRICE\<close>, and the process is armed or the order does not transmit, and the order does
  not route outside regular trading hours; otherwise its assertion fails.
  \<open>safe_place_order\<close> asserts the marker before anything else: without the marker it fails
  with no effect and no change of state, so every placement call that it issues is for the
  order it was given, and that order carries the marker.
\<close>

theorem audit_gate:
  "(audit_order armed_flag ord = Inr ord' \<longrightarrow>
      orderType ord = ''MIDPRICE'' \<and> (armed_flag \<or> \<not> transmit ord) \<and> \<not> outsideRth ord
      \<and> ord' = ord\<lparr>audited := True\<rparr>)
   \<and> (orderType ord = ''MIDPRICE'' \<and> (armed_flag \<or> \<not> transmit ord) \<and> \<not> outsideRth ord \<longrightarrow>
      audit_order armed_flag ord = Inr (ord\<lparr>audited := True\<rparr>))
   \<and> (\<not> (orderType ord = ''MIDPRICE'' \<and> (armed_flag \<or> \<not> transmit ord) \<and> \<not> outsideRth ord) \<longrightarrow>
      audit_order armed_flag ord = Inl AssertionError)
   \<and> (\<not> audited ord \<longrightarrow> safe_place_order s now sc ord reply = (Inl AssertionError, s, []))
   \<and> (PlaceOrder oid' sc' ord'' \<in> set (snd (snd (safe_place_order s now sc ord reply))) \<longrightarrow>
        audited ord \<and> ord'' = ord)"
proof -
  have a: "audit_order armed_flag ord =
      (if orderType ord = ''MIDPRICE'' \<and> (armed_flag \<or> \<not> transmit ord) \<and> \<not> outsideRth ord
       then Inr (ord\<lparr>audited := True\<rparr>) else Inl AssertionError)"
    by (simp add: audit_order_def Let_def)
  have b: "\<not> audited ord \<longrightarrow> safe_place_order s now sc ord reply = (Inl AssertionError, s, [])"
    by (simp add: safe_place_order_def)
  have c: "PlaceOrder oid' sc' ord'' \<in> set (snd (snd (safe_place_order s now sc ord reply))) \<longrightarrow>
        audited ord \<and> ord'' = ord"
    using safe_place_order_places [of oid' sc' ord'' s now sc ord reply] by blast
  from a b c show ?thesis by (auto split: if_splits)
qed

theorem audit_gate_witness:
  "audit_order False fresh_order = Inr audited_order
   \<and> audit_order True (fresh_order\<lparr>outsideRth := True\<rparr>) = Inl AssertionError
   \<and> safe_place_order example_app 1000 sc_A fresh_order 8 = (Inl AssertionError, example_app, [])
   \<and> PlaceOrder 8 sc_A audited_order
       \<in> set (snd (snd (safe_place_order example_app 1000 sc_A audited_order 8)))
   \<and> audited audited_order"
  using audit_gate [of False fresh_order audited_order example_app 1000 sc_A 8 8 sc_A audited_order]
    audit_gate [of True "fresh_order\<lparr>outsideRth := True\<rparr>" audited_order example_app 1000 sc_A 8 8 sc_A audited_order]
    audit_gate [of False audited_order audited_order example_app 1000 sc_A 8 8 sc_A audited_order]
  by (simp add: fresh_order_def audited_order_def example_app_def safe_place_order_def
      next_requested_id_def put_nowait_def order_id_queue_maxsize_def queue_get_def
      clear_any_untransmitted_order_def clear_untransmitted_def om_expire_def enter_order_def)

lemma pricing_age_loop_less:
  "age_less (pricing_age_loop prices now a cs) x \<longleftrightarrow>
     a < x \<and> (\<forall>c \<in> set cs. \<exists>bar. prices c = Some bar \<and> now - real_of_int (bar_t bar) < x)"
  by (induction cs arbitrary: a) (auto split: option.splits)

lemma is_live_prices:
  "is_live s now \<Longrightarrow> c \<in> set (contracts (target_composition s)) \<Longrightarrow>
     \<exists>bar. portfolio_prices s c = Some bar"
  by (cases "acct_state s")
     (auto simp: is_live_def pricing_age_def pricing_age_loop_less)

text \<open>
  C4. \<open>is_live\<close> holds if and only if an account snapshot exists that is younger than 120
  seconds and every contract of the target composition has a bar younger than 20 seconds.
  One target contract without a bar, or with a bar of 20 seconds or more, makes \<open>is_live\<close>
  false whatever the other bars and the account snapshot are.
\<close>

theorem is_live_iff:
  "(is_live s now \<longleftrightarrow>
      (\<exists>a. acct_state s = Some a \<and> summary_age a now < 120)
      \<and> (\<forall>c \<in> set (contracts (target_composition s)).
            \<exists>bar. portfolio_prices s c = Some bar \<and> now - real_of_int (bar_t bar) < 20))
   \<and> (c \<in> set (contracts (target_composition s))
        \<and> (portfolio_prices s c = None
            \<or> (\<exists>bar. portfolio_prices s c = Some bar \<and> now - real_of_int (bar_t bar) \<ge> 20))
      \<longrightarrow> \<not> is_live s now)
   \<and> MAX_ACCT_SUM_AGE = 120 \<and> MAX_PRICING_AGE = 20"
proof -
  have a: "is_live s now \<longleftrightarrow>
      (\<exists>a. acct_state s = Some a \<and> summary_age a now < 120)
      \<and> (\<forall>c \<in> set (contracts (target_composition s)).
            \<exists>bar. portfolio_prices s c = Some bar \<and> now - real_of_int (bar_t bar) < 20)"
    by (cases "acct_state s")
       (simp_all add: is_live_def pricing_age_def pricing_age_loop_less MAX_ACCT_SUM_AGE_def
          MAX_PRICING_AGE_def)
  have b: "c \<in> set (contracts (target_composition s))
        \<and> (portfolio_prices s c = None
            \<or> (\<exists>bar. portfolio_prices s c = Some bar \<and> now - real_of_int (bar_t bar) \<ge> 20))
      \<longrightarrow> \<not> is_live s now"
    unfolding a by fastforce
  from a b show ?thesis by (simp add: MAX_ACCT_SUM_AGE_def MAX_PRICING_AGE_def)
qed

theorem is_live_iff_witness:
  "is_live example_app 1000
   \<and> sc_B \<in> set (contracts (target_composition stale_app))
   \<and> portfolio_prices stale_app sc_B = Some (bar_at 970 10)
   \<and> \<not> is_live stale_app 1000"
  using is_live_iff [of example_app 1000 sc_A] is_live_iff [of stale_app 1000 sc_B]
  by (simp add: example_app_def stale_app_def summary_age_def bar_at_def sc_A_def sc_B_def)

text \<open>
  C5. An order-status callback for an order whose instrument the Order Manager reports in
  \<open>COOLOFF\<close> is dropped: one debug line, no change of state, whatever the status. A
  callback with status \<open>Filled\<close> for an order whose instrument is in \<open>TRANSMITTED\<close> moves the
  entry to \<open>COOLOFF\<close> and issues exactly one request for the positions.
\<close>

theorem order_status_callbacks:
  "(get_nc (order_manager s) oid = Some sc
      \<and> fst (get_state now (order_manager s) sc) = Some COOLOFF \<longrightarrow>
        orderStatus s now oid status
          = (Inr (), s, [AppLog DEBUG ''Dropping post-finalization call'']))
   \<and> (get_nc (order_manager s) oid = Some sc
      \<and> fst (get_state now (order_manager s) sc) = Some TRANSMITTED \<longrightarrow>
        orderStatus s now oid ''Filled''
          = (Inr (), s\<lparr>order_manager := snd (finalize_order now (order_manager s) sc)\<rparr>,
             [AppLog INFO ''Order filled'', ReqPositions])
        \<and> fst (get_state now (snd (finalize_order now (order_manager s) sc)) sc) = Some COOLOFF)"
proof -
  have a: "orderStatus s now oid status
          = (Inr (), s, [AppLog DEBUG ''Dropping post-finalization call''])"
    if h: "get_nc (order_manager s) oid = Some sc"
          "fst (get_state now (order_manager s) sc) = Some COOLOFF"
  proof -
    from get_state_Some [OF h(2)] obtain e where
      k: "om_expire now (order_manager s) sc = order_manager s"
      and e: "map_of (order_manager s) sc = Some e" "om_state e = COOLOFF"
      by blast
    show ?thesis
      using h(1) k e
      by (simp add: orderStatus_def get_order_def get_state_def same_manager)
  qed
  have b: "orderStatus s now oid ''Filled''
          = (Inr (), s\<lparr>order_manager := snd (finalize_order now (order_manager s) sc)\<rparr>,
             [AppLog INFO ''Order filled'', ReqPositions])
        \<and> fst (get_state now (snd (finalize_order now (order_manager s) sc)) sc) = Some COOLOFF"
    if h: "get_nc (order_manager s) oid = Some sc"
          "fst (get_state now (order_manager s) sc) = Some TRANSMITTED"
  proof -
    from get_state_Some [OF h(2)] obtain e where
      k: "om_expire now (order_manager s) sc = order_manager s"
      and e: "map_of (order_manager s) sc = Some e" "om_state e = TRANSMITTED"
      by blast
    have f: "finalize_order now (order_manager s) sc
               = (True, AList.update sc (e\<lparr>om_state := COOLOFF, om_stamp := now\<rparr>) (order_manager s))"
      using k e by (simp add: finalize_order_def)
    have g: "fst (get_state now (AList.update sc (e\<lparr>om_state := COOLOFF, om_stamp := now\<rparr>)
                   (order_manager s)) sc) = Some COOLOFF"
      by (simp add: get_state_def om_expire_def update_conv ORDER_COOLOFF_def)
    show ?thesis
      using h(1) k e f g
      by (simp add: orderStatus_def get_order_def get_state_def)
  qed
  from a b show ?thesis by blast
qed

theorem order_status_callbacks_witness:
  "orderStatus (entry_app COOLOFF 990) 1000 7 ''Filled''
     = (Inr (), entry_app COOLOFF 990, [AppLog DEBUG ''Dropping post-finalization call''])
   \<and> orderStatus (entry_app TRANSMITTED 0) 1000 7 ''Filled''
     = (Inr (), entry_app COOLOFF 1000, [AppLog INFO ''Order filled'', ReqPositions])"
  using order_status_callbacks [of "entry_app COOLOFF 990" 7 sc_A 1000 "''Filled''"]
    order_status_callbacks [of "entry_app TRANSMITTED 0" 7 sc_A 1000 "''Filled''"]
  by (simp add: entry_app_def get_nc_def get_state_def om_expire_def ORDER_COOLOFF_def
      finalize_order_def)

lemma port_price_sum_value:
  "\<forall>sc \<in> set cs. weights (target_composition s) sc \<noteq> None \<and> portfolio_prices s sc \<noteq> None \<Longrightarrow>
   \<exists>p. port_price_sum s acc cs = Inr p"
  by (induction cs arbitrary: acc) (auto simp: Composition_getitem_def)

text \<open>
  C6, as the claim states it, fails twice. In a live state whose composition is worth more
  than the all-time-high reference, \<open>get_target_margin_use\<close> fails the drawdown assertion
  instead of returning a value. In the live example state it returns 0.79 with no prompt
  and no log line, although the margin-usage rule lets 0.79 pass only on the operator's
  confirmation: the result is not passed through the rule.
\<close>

theorem target_margin_use_counterexample:
  "is_live above_ath_app 1000
   \<and> get_target_margin_use above_ath_app 1000 = (Inl AssertionError, above_ath_app, [])
   \<and> is_live example_app 1000
   \<and> get_target_margin_use example_app 1000 = (Inr (79 / 100), example_app, [])
   \<and> validate MARGIN_USAGE (79 / 100) ''NO'' = (Inl SecurityFault, [Prompt ''MARGIN USAGE''])"
  by (simp add: example_app_def above_ath_app_def example_conf_def
      is_live_def pricing_age_def summary_age_def MAX_ACCT_SUM_AGE_def MAX_PRICING_AGE_def
      bar_at_def sc_A_def sc_B_def MARGIN_USAGE_def max_rule_def
      get_target_margin_use_def effective_drawdown_def Composition_getitem_def
      validate_def confirm_danger_def)

text \<open>
  C6, amended. When the system is not live, \<open>get_target_margin_use\<close> raises
  \<open>LivenessError\<close> and changes no state. When the system is live, every target contract has a weight and the
  drawdown reference is not zero, the mark-to-market value of the composition is defined,
  and with the effective drawdown \<open>dd = 1 - value / reference\<close>: if \<open>0 \<le> dd < 1\<close> the
  function returns the minimum of at-peak margin target plus drawdown coefficient times
  \<open>dd\<close> and the margin-usage block level minus 0.01, a value strictly below the block level;
  otherwise the drawdown assertion fails. On every path the function applies no Risk
  Policy rule: it neither prompts nor logs.
\<close>

theorem target_margin_use:
  "(\<not> is_live s now \<longrightarrow> get_target_margin_use s now = (Inl LivenessError, s, []))
   \<and> (is_live s now
        \<and> (\<forall>sc \<in> set (contracts (target_composition s)). weights (target_composition s) sc \<noteq> None)
        \<and> dd_reference_ath (conf s) \<noteq> 0 \<longrightarrow>
        (\<exists>port_price. port_price_sum s 0 (contracts (target_composition s)) = Inr port_price
           \<and> (let dd = 1 - port_price / dd_reference_ath (conf s);
                   mu = min (mu_at_ath (conf s) + dd_coef (conf s) * dd)
                            (block_level MARGIN_USAGE - 0.01)
               in (0 \<le> dd \<and> dd < 1 \<longrightarrow>
                     get_target_margin_use s now = (Inr mu, s, [])
                     \<and> mu < block_level MARGIN_USAGE)
                \<and> (\<not> (0 \<le> dd \<and> dd < 1) \<longrightarrow>
                     get_target_margin_use s now = (Inl AssertionError, s, [])))))"
proof -
  have a: "\<not> is_live s now \<longrightarrow> get_target_margin_use s now = (Inl LivenessError, s, [])"
    by (simp add: get_target_margin_use_def)
  have b: "\<exists>port_price. port_price_sum s 0 (contracts (target_composition s)) = Inr port_price
           \<and> (let dd = 1 - port_price / dd_reference_ath (conf s);
                   mu = min (mu_at_ath (conf s) + dd_coef (conf s) * dd)
                            (block_level MARGIN_USAGE - 0.01)
               in (0 \<le> dd \<and> dd < 1 \<longrightarrow>
                     get_target_margin_use s now = (Inr mu, s, [])
                     \<and> mu < block_level MARGIN_USAGE)
                \<and> (\<not> (0 \<le> dd \<and> dd < 1) \<longrightarrow>
                     get_target_margin_use s now = (Inl AssertionError, s, [])))"
    if live: "is_live s now"
      and w: "\<forall>sc \<in> set (contracts (target_composition s)). weights (target_composition s) sc \<noteq> None"
      and nz: "dd_reference_ath (conf s) \<noteq> 0"
  proof -
    have "\<forall>sc \<in> set (contracts (target_composition s)).
            weights (target_composition s) sc \<noteq> None \<and> portfolio_prices s sc \<noteq> None"
      using w is_live_prices [OF live] by fastforce
    then obtain p where p: "port_price_sum s 0 (contracts (target_composition s)) = Inr p"
      using port_price_sum_value [of "contracts (target_composition s)" s 0] by blast
    have m: "min x (block_level MARGIN_USAGE - 0.01) < block_level MARGIN_USAGE" for x
      by (simp add: MARGIN_USAGE_def max_rule_def min_def)
    show ?thesis
      using live nz p m
      by (simp add: get_target_margin_use_def effective_drawdown_def Let_def)
  qed
  from a b show ?thesis by blast
qed

theorem target_margin_use_witness:
  "\<not> is_live stale_app 1000
   \<and> get_target_margin_use stale_app 1000 = (Inl LivenessError, stale_app, [])
   \<and> is_live example_app 1000
   \<and> get_target_margin_use example_app 1000 = (Inr (79 / 100), example_app, [])
   \<and> is_live above_ath_app 1000
   \<and> get_target_margin_use above_ath_app 1000 = (Inl AssertionError, above_ath_app, [])"
proof -
  have stale: "\<not> is_live stale_app 1000"
    by (simp add: stale_app_def example_app_def is_live_def pricing_age_def summary_age_def
        MAX_ACCT_SUM_AGE_def MAX_PRICING_AGE_def bar_at_def sc_A_def sc_B_def)
  have live: "is_live example_app 1000" "is_live above_ath_app 1000"
    by (simp_all add: above_ath_app_def example_app_def is_live_def pricing_age_def
        summary_age_def MAX_ACCT_SUM_AGE_def MAX_PRICING_AGE_def bar_at_def sc_A_def sc_B_def)
  have w: "\<forall>sc \<in> set (contracts (target_composition example_app)).
             weights (target_composition example_app) sc \<noteq> None"
    "\<forall>sc \<in> set (contracts (target_composition above_ath_app)).
             weights (target_composition above_ath_app) sc \<noteq> None"
    by (simp_all add: above_ath_app_def example_app_def del: not_None_eq)
  have nz: "dd_reference_ath (conf example_app) \<noteq> 0" "dd_reference_ath (conf above_ath_app) \<noteq> 0"
    by (simp_all add: above_ath_app_def example_app_def example_conf_def)
  have p: "port_price_sum example_app 0 (contracts (target_composition example_app)) = Inr 10"
    "port_price_sum above_ath_app 0 (contracts (target_composition above_ath_app)) = Inr 30"
    by (simp_all add: above_ath_app_def example_app_def Composition_getitem_def bar_at_def
        sc_A_def sc_B_def)
  have c: "dd_reference_ath (conf example_app) = 20" "mu_at_ath (conf example_app) = 0.15"
    "dd_coef (conf example_app) = 1.4" "dd_reference_ath (conf above_ath_app) = 20"
    "block_level MARGIN_USAGE = 0.8"
    by (simp_all add: above_ath_app_def example_app_def example_conf_def MARGIN_USAGE_def
        max_rule_def)
  show ?thesis
    using target_margin_use [of stale_app 1000] target_margin_use [of example_app 1000]
      target_margin_use [of above_ath_app 1000] stale live w nz
    by (simp add: p c Let_def)
qed

lemma concat_map_skip:
  "concat (map (\<lambda>k. if k = c then [] else g k) xs) = concat (map g (filter (\<lambda>k. k \<noteq> c) xs))"
  by (induction xs) auto

lemma remdups_snoc:
  "remdups (xs @ [c]) = filter (\<lambda>k. k \<noteq> c) (remdups xs) @ [c]"
  by (induction xs) auto

lemma first_occurrences_Cons:
  "rev (remdups (rev (c # cs))) = c # filter (\<lambda>k. k \<noteq> c) (rev (remdups (rev cs)))"
  by (simp add: remdups_snoc rev_filter)

lemma clear_all_exact:
  "clear_all s now cs =
     (s\<lparr>order_manager :=
          filter (\<lambda>(k, _). \<not> (k \<in> set cs
                    \<and> (case map_of (order_manager s) k of
                         None \<Rightarrow> False
                       | Some e \<Rightarrow> om_state e = PENDING
                           \<or> om_state e = COOLOFF \<and> now - om_stamp e > ORDER_COOLOFF)))
            (order_manager s)\<rparr>,
      concat (map (\<lambda>sc. case map_of (order_manager s) sc of
                          None \<Rightarrow> []
                        | Some e \<Rightarrow>
                            if om_state e = PENDING then [CancelOrder (om_oid e), Sleep] else [])
                (rev (remdups (rev cs)))))"
proof -
  define R where "R = (\<lambda>(om :: OrderManager) k.
     case map_of om k of
       None \<Rightarrow> False
     | Some e \<Rightarrow> om_state e = PENDING \<or> om_state e = COOLOFF \<and> now - om_stamp e > ORDER_COOLOFF)"
  define E where "E = (\<lambda>(om :: OrderManager) sc.
     case map_of om sc of
       None \<Rightarrow> []
     | Some e \<Rightarrow> if om_state e = PENDING then [CancelOrder (om_oid e), Sleep] else [])"
  define nxt where "nxt = (\<lambda>(om :: OrderManager) c. if R om c then AList.delete c om else om)"
  have step: "clear_any_untransmitted_order s now c
                = (s\<lparr>order_manager := nxt (order_manager s) c\<rparr>, E (order_manager s) c)" for s c
  proof (cases "map_of (order_manager s) c")
    case None
    then show ?thesis
      by (simp add: clear_any_untransmitted_order_def clear_untransmitted_def om_expire_None
          R_def E_def nxt_def)
  next
    case (Some e)
    show ?thesis
    proof (cases "om_state e = COOLOFF \<and> now - om_stamp e > ORDER_COOLOFF")
      case True
      with Some have "om_expire now (order_manager s) c = AList.delete c (order_manager s)"
        by (simp add: om_expire_drop)
      with Some True show ?thesis
        by (simp add: clear_any_untransmitted_order_def clear_untransmitted_def
            map_of_delete_same R_def E_def nxt_def)
    next
      case False
      with Some have "om_expire now (order_manager s) c = order_manager s"
        by (simp add: om_expire_keep)
      with Some False show ?thesis
        by (cases "om_state e")
           (simp_all add: clear_any_untransmitted_order_def clear_untransmitted_def
              safe_cancel_order_def R_def E_def nxt_def)
    qed
  qed
  have M1: "map_of (nxt om c) k = (if k = c \<and> R om c then None else map_of om k)" for om c k
    by (simp add: nxt_def delete_conv)
  have R1: "R (nxt om c) k = (k \<noteq> c \<and> R om k)" for om c k
  proof (cases "k = c \<and> R om c")
    case True
    then have "map_of (nxt om c) k = None" by (simp add: M1)
    with True show ?thesis by (simp add: R_def)
  next
    case False
    then have "map_of (nxt om c) k = map_of om k" by (auto simp: M1)
    with False show ?thesis by (auto simp: R_def)
  qed
  have E1: "E (nxt om c) k = (if k = c then [] else E om k)" for om c k
  proof (cases "k = c")
    case False
    then have "map_of (nxt om c) k = map_of om k" by (auto simp: M1)
    with False show ?thesis by (simp add: E_def)
  next
    case True
    show ?thesis
    proof (cases "R om c")
      case True
      with \<open>k = c\<close> have "map_of (nxt om c) k = None" by (simp add: M1)
      with \<open>k = c\<close> show ?thesis by (simp add: E_def)
    next
      case False
      with \<open>k = c\<close> have "map_of (nxt om c) k = map_of om c" by (auto simp: M1)
      with False \<open>k = c\<close> show ?thesis
        by (cases "map_of om c") (auto simp: E_def R_def)
    qed
  qed
  have F1: "filter (\<lambda>(k, _). \<not> (k \<in> set cs \<and> R (nxt om c) k)) (nxt om c)
              = filter (\<lambda>(k, _). \<not> (k \<in> set (c # cs) \<and> R om k)) om" for om c cs
  proof -
    have a: "filter (\<lambda>(k, _). \<not> (k \<in> set cs \<and> R (nxt om c) k)) (nxt om c)
               = filter (\<lambda>(k, _). \<not> (k \<in> set cs \<and> k \<noteq> c \<and> R om k)) (nxt om c)"
      by (simp add: R1)
    have b: "nxt om c = filter (\<lambda>(k, _). \<not> (k = c \<and> R om c)) om"
      by (auto simp: nxt_def AList.delete_eq intro: filter_cong)
    have c: "filter (\<lambda>(k, _). \<not> (k \<in> set cs \<and> k \<noteq> c \<and> R om k))
               (filter (\<lambda>(k, _). \<not> (k = c \<and> R om c)) om)
               = filter (\<lambda>(k, _). \<not> (k \<in> set (c # cs) \<and> R om k)) om"
      by (auto intro: filter_cong)
    show ?thesis
      unfolding a by (subst b) (rule c)
  qed
  have main: "clear_all s now cs =
     (s\<lparr>order_manager := filter (\<lambda>(k, _). \<not> (k \<in> set cs \<and> R (order_manager s) k)) (order_manager s)\<rparr>,
      concat (map (E (order_manager s)) (rev (remdups (rev cs)))))" for s
  proof (induction cs arbitrary: s)
    case Nil
    show ?case by (cases s) simp
  next
    case (Cons c cs)
    have "concat (map (E (nxt (order_manager s) c)) (rev (remdups (rev cs))))
            = concat (map (E (order_manager s)) (filter (\<lambda>k. k \<noteq> c) (rev (remdups (rev cs)))))"
    proof -
      have "E (nxt (order_manager s) c) = (\<lambda>k. if k = c then [] else E (order_manager s) k)"
        by (rule ext) (simp add: E1)
      then show ?thesis
        using concat_map_skip [of c "E (order_manager s)" "rev (remdups (rev cs))"]
        by simp
    qed
    then show ?case
      using Cons.IH [of "s\<lparr>order_manager := nxt (order_manager s) c\<rparr>"]
        F1 [of cs "order_manager s" c]
      by (simp add: step first_occurrences_Cons del: remdups.simps rev.simps set_simps)
  qed
  show ?thesis
    using main [of s] by (simp add: R_def E_def)
qed

text \<open>
  C8. On the error channel, code 420 shuts the process down; each code of the permitted
  catalogue 202, 504, 2103, 2104, 2106, 2108, 2158 leaves exactly one log line at its level
  (warning for 202 and 2103, debug for the others) and the state as it is; every other
  code shuts the process down. A shutdown is exactly this: one critical log line; then,
  for the target contracts in their order (each once), the cancellation of the order id
  of every entry that is \<open>PENDING\<close>, each followed by the pause; then the disconnection and
  the exit with status -1. Of the state only the Order Manager changes: it loses the
  entries of the target contracts that were \<open>PENDING\<close>, and those in \<open>COOLOFF\<close> whose quiet
  period is over (dropped by the lazy check); every other entry stays.
\<close>

theorem error_channel:
  "error s now rid 420 str = kill_app s now ''error 420 you need to chill''
   \<and> kill_app s now msg =
       (Inl (SystemExit (- 1)),
        s\<lparr>order_manager :=
             filter (\<lambda>(k, _). \<not> (k \<in> set (contracts (target_composition s))
                       \<and> (case map_of (order_manager s) k of
                            None \<Rightarrow> False
                          | Some e \<Rightarrow> om_state e = PENDING
                              \<or> om_state e = COOLOFF \<and> now - om_stamp e > ORDER_COOLOFF)))
               (order_manager s)\<rparr>,
        AppLog CRITICAL (''Killed: '' @ msg)
          # concat (map (\<lambda>sc. case map_of (order_manager s) sc of
                                 None \<Rightarrow> []
                               | Some e \<Rightarrow>
                                   if om_state e = PENDING
                                   then [CancelOrder (om_oid e), Sleep] else [])
                      (rev (remdups (rev (contracts (target_composition s))))))
          @ [Disconnect, SysExit (- 1)])
   \<and> error s now rid 202 str = (Inr (), s, [AppLog WARNING (''TWS error channel: '' @ str)])
   \<and> error s now rid 504 str = (Inr (), s, [AppLog DEBUG (''TWS error channel: '' @ str)])
   \<and> error s now rid 2103 str = (Inr (), s, [AppLog WARNING (''TWS error channel: '' @ str)])
   \<and> error s now rid 2104 str = (Inr (), s, [AppLog DEBUG (''TWS error channel: '' @ str)])
   \<and> error s now rid 2106 str = (Inr (), s, [AppLog DEBUG (''TWS error channel: '' @ str)])
   \<and> error s now rid 2108 str = (Inr (), s, [AppLog DEBUG (''TWS error channel: '' @ str)])
   \<and> error s now rid 2158 str = (Inr (), s, [AppLog DEBUG (''TWS error channel: '' @ str)])
   \<and> (code \<notin> {420, 202, 504, 2103, 2104, 2106, 2108, 2158} \<longrightarrow>
        error s now rid code str = kill_app s now (''TWS error channel: '' @ str))"
proof -
  have a: "error s now rid 420 str = kill_app s now ''error 420 you need to chill''"
    by (simp add: error_def)
  have b: "kill_app s now msg =
       (Inl (SystemExit (- 1)),
        s\<lparr>order_manager :=
             filter (\<lambda>(k, _). \<not> (k \<in> set (contracts (target_composition s))
                       \<and> (case map_of (order_manager s) k of
                            None \<Rightarrow> False
                          | Some e \<Rightarrow> om_state e = PENDING
                              \<or> om_state e = COOLOFF \<and> now - om_stamp e > ORDER_COOLOFF)))
               (order_manager s)\<rparr>,
        AppLog CRITICAL (''Killed: '' @ msg)
          # concat (map (\<lambda>sc. case map_of (order_manager s) sc of
                                 None \<Rightarrow> []
                               | Some e \<Rightarrow>
                                   if om_state e = PENDING
                                   then [CancelOrder (om_oid e), Sleep] else [])
                      (rev (remdups (rev (contracts (target_composition s))))))
          @ [Disconnect, SysExit (- 1)])"
    by (simp only: kill_app_def shut_down_def clear_all_exact prod.case)
  have c: "error s now rid 202 str = (Inr (), s, [AppLog WARNING (''TWS error channel: '' @ str)])"
    "error s now rid 504 str = (Inr (), s, [AppLog DEBUG (''TWS error channel: '' @ str)])"
    "error s now rid 2103 str = (Inr (), s, [AppLog WARNING (''TWS error channel: '' @ str)])"
    "error s now rid 2104 str = (Inr (), s, [AppLog DEBUG (''TWS error channel: '' @ str)])"
    "error s now rid 2106 str = (Inr (), s, [AppLog DEBUG (''TWS error channel: '' @ str)])"
    "error s now rid 2108 str = (Inr (), s, [AppLog DEBUG (''TWS error channel: '' @ str)])"
    "error s now rid 2158 str = (Inr (), s, [AppLog DEBUG (''TWS error channel: '' @ str)])"
    by (simp_all add: error_def PERMIT_ERROR_def log_method_def)
  have d: "code \<notin> {420, 202, 504, 2103, 2104, 2106, 2108, 2158} \<longrightarrow>
        error s now rid code str = kill_app s now (''TWS error channel: '' @ str)"
    by (simp add: error_def PERMIT_ERROR_def)
  from a b c d show ?thesis by blast
qed

theorem error_channel_witness:
  "(100::int) \<notin> {420, 202, 504, 2103, 2104, 2106, 2108, 2158}
   \<and> error (entry_app PENDING 0) 1000 1 100 ''unknown''
       = kill_app (entry_app PENDING 0) 1000 ''TWS error channel: unknown''
   \<and> kill_app (entry_app PENDING 0) 1000 ''TWS error channel: unknown''
       = (Inl (SystemExit (- 1)), example_app,
          [AppLog CRITICAL ''Killed: TWS error channel: unknown'', CancelOrder 7, Sleep,
           Disconnect, SysExit (- 1)])"
proof -
  have n: "(100::int) \<notin> {420, 202, 504, 2103, 2104, 2106, 2108, 2158}"
    by simp
  have cs: "contracts (target_composition (entry_app PENDING 0)) = [sc_A, sc_B]"
    by (simp add: entry_app_def example_app_def)
  have om: "order_manager (entry_app PENDING 0)
              = [(sc_A, \<lparr>om_oid = 7, om_order = audited_order, om_state = PENDING, om_stamp = 0\<rparr>)]"
    by (simp add: entry_app_def)
  have ne: "sc_A \<noteq> sc_B"
    by (simp add: sc_A_def sc_B_def)
  have st: "(entry_app PENDING 0)\<lparr>order_manager := []\<rparr> = example_app"
    by (simp add: entry_app_def example_app_def)
  show ?thesis
    using error_channel [of "entry_app PENDING 0" 1000 1 "''unknown''"
                            "''TWS error channel: unknown''" 100] n ne
    by (simp add: cs om st)
qed

lemma io_bind_isl:
  assumes "\<And>x. isl (fst (f x))"
  shows "isl (fst (io_bind m f))"
proof (cases m)
  case (Pair res evs)
  show ?thesis
  proof (cases res)
    case (Inl e)
    with Pair show ?thesis by (simp add: io_bind_def)
  next
    case (Inr x)
    with Pair assms [of x] show ?thesis
      by (cases "f x") (simp add: io_bind_def)
  qed
qed

lemma misalloc_fraction_unbound:
  "validate_float ''MISALLOC_FRACTION'' sect key answers = (Inl AttributeError, [])"
  by (simp add: validate_float_def Policy_rule_def Policy_def io_bind_def io_lift_def)

text \<open>
  C9. \<open>read_config\<close> does not do what the claim says: the class \<open>Policy\<close> binds no
  attribute \<open>MISALLOC_FRACTION\<close>, so for no configuration and no operator does it return a
  record. For the example configuration, with every key present and well-formed, it
  raises \<open>AttributeError\<close> after having validated the at-peak margin use, the drawdown
  coefficient and the misallocation dollar minimum.
\<close>

theorem read_config_fails:
  "isl (fst (read_config cfg answers))
   \<and> read_config example_cfg (\<lambda>rule. ''YES'')
       = (Inl AttributeError,
          [SecLog INFO ''ATH MARGIN USER'', SecLog INFO ''DRAWDOWN COEFFICIENT'',
           SecLog DEBUG ''MISALLOC $ MIN''])"
proof -
  have a: "isl (fst (read_config cfg answers))"
    unfolding read_config_def
    apply (rule io_bind_isl)
    apply (rule io_bind_isl)
    apply (rule io_bind_isl)
    apply (rule io_bind_isl)
    apply (rule io_bind_isl)
    apply (rule io_bind_isl)
    apply (simp add: misalloc_fraction_unbound io_bind_def)
    done
  have b: "read_config example_cfg (\<lambda>rule. ''YES'')
       = (Inl AttributeError,
          [SecLog INFO ''ATH MARGIN USER'', SecLog INFO ''DRAWDOWN COEFFICIENT'',
           SecLog DEBUG ''MISALLOC $ MIN''])"
    by (simp add: read_config_def example_cfg_def io_bind_def io_lift_def cfg_getitem_def
        getfloat_def getint_def validate_float_def validate_int_def Policy_rule_def Policy_def
        validate_def ATH_MARGIN_USE_def DRAWDOWN_COEFFICIENT_def MISALLOC_DOLLARS_def
        max_rule_def min_rule_def)
  from a b show ?thesis by simp
qed

text \<open>
  C10. The order-id queue has capacity one. The callback \<open>next_requested_id\<close> does not
  wait: into an empty queue it puts the id; when an id is already waiting it kills the
  process, and the waiting id stays in the queue as it is. The queue never holds more than
  one id after the callback or after \<open>safe_place_order\<close>.
\<close>

theorem order_id_rendezvous:
  "order_id_queue_maxsize = 1
   \<and> (order_id_queue s = [] \<longrightarrow>
        next_requested_id s now oid = (Inr (), s\<lparr>order_id_queue := [oid]\<rparr>, []))
   \<and> (order_id_queue s \<noteq> [] \<longrightarrow>
        next_requested_id s now oid
          = kill_app s now ''Full order queue -- should not be possible.''
        \<and> fst (next_requested_id s now oid) = Inl (SystemExit (- 1))
        \<and> order_id_queue (fst (snd (next_requested_id s now oid))) = order_id_queue s)
   \<and> (length (order_id_queue s) \<le> 1 \<longrightarrow>
        length (order_id_queue (fst (snd (next_requested_id s now oid)))) \<le> 1
        \<and> length (order_id_queue (fst (snd (safe_place_order s now sc ord reply)))) \<le> 1)"
proof -
  have a: "order_id_queue s = [] \<longrightarrow>
        next_requested_id s now oid = (Inr (), s\<lparr>order_id_queue := [oid]\<rparr>, [])"
    by (simp add: next_requested_id_def put_nowait_def order_id_queue_maxsize_def)
  have b: "order_id_queue s \<noteq> [] \<longrightarrow>
        next_requested_id s now oid
          = kill_app s now ''Full order queue -- should not be possible.''"
    by (cases "order_id_queue s")
       (simp_all add: next_requested_id_def put_nowait_def order_id_queue_maxsize_def)
  have c: "order_id_queue s \<noteq> [] \<longrightarrow>
        fst (next_requested_id s now oid) = Inl (SystemExit (- 1))
        \<and> order_id_queue (fst (snd (next_requested_id s now oid))) = order_id_queue s"
    using b kill_app_result kill_app_queue by simp
  have d: "length (order_id_queue s) \<le> 1 \<longrightarrow>
        length (order_id_queue (fst (snd (next_requested_id s now oid)))) \<le> 1"
    using a c by (cases "order_id_queue s = []") simp_all
  have e: "length (order_id_queue s) \<le> 1 \<longrightarrow>
        length (order_id_queue (fst (snd (safe_place_order s now sc ord reply)))) \<le> 1"
    by (simp add: safe_place_order_queue)
  from a b c d e show ?thesis by (simp add: order_id_queue_maxsize_def)
qed

theorem order_id_rendezvous_witness:
  "next_requested_id example_app 1000 8 = (Inr (), example_app\<lparr>order_id_queue := [8]\<rparr>, [])
   \<and> order_id_queue full_queue_app = [5]
   \<and> fst (next_requested_id full_queue_app 1000 8) = Inl (SystemExit (- 1))
   \<and> order_id_queue (fst (snd (next_requested_id full_queue_app 1000 8))) = [5]
   \<and> length (order_id_queue (fst (snd (safe_place_order full_queue_app 1000 sc_A audited_order 8))))
       \<le> 1"
proof -
  have e: "order_id_queue example_app = []"
    by (simp add: example_app_def)
  have f: "order_id_queue full_queue_app = [5]"
    by (simp add: full_queue_app_def)
  show ?thesis
    using order_id_rendezvous [of example_app 1000 8 sc_A audited_order 8]
      order_id_rendezvous [of full_queue_app 1000 8 sc_A audited_order 8] e f
    by (auto simp: order_id_queue_maxsize_def)
qed

end
